theory Spec2Isabelle
  imports Complex_Main "HOL-Library.Word"
begin

section \<open>Data model of the transaction builders (hook useOpenbookTwap)\<close>

text \<open>
  A public key is modelled by its value, written as the base-58 string that
  \<^verbatim>\<open>toString()\<close> returns. Where the source compares two \<^verbatim>\<open>PublicKey\<close>
  objects with \<^verbatim>\<open>!==\<close> (in \<^verbatim>\<open>crankMarketTransactions\<close>), the object itself is
  modelled: a reference together with the value it holds. Everywhere else only the
  value of a key is read, and the value stands for the object.
\<close>

type_synonym pubkey = string

record PublicKey =
  ref :: nat
  key :: pubkey

definition toString :: "PublicKey \<Rightarrow> string" where
  "toString k = key k"

datatype error =
    RpcError      \<comment> \<open>a rejected network request\<close>
  | BNError       \<comment> \<open>the big-number constructor refused a number\<close>
  | EncodeError   \<comment> \<open>an instruction coder refused an argument\<close>
  | TypeError     \<comment> \<open>a property read on undefined\<close>

record market_account =
  asks :: pubkey
  bids :: pubkey
  eventHeap :: pubkey
  baseMint :: pubkey
  quoteMint :: pubkey
  marketBaseVault :: pubkey
  marketQuoteVault :: pubkey
  marketAuthority :: pubkey

record MarketAccountWithKey =
  publicKey :: pubkey
  account :: market_account

record proposal_account =
  number :: nat
  descriptionUrl :: string
  proposer :: pubkey
  baseVault :: pubkey
  quoteVault :: pubkey

record ProposalAccountWithKey =
  proposal_publicKey :: pubkey
  proposal_account :: proposal_account

record vault_account =
  conditionalOnFinalizeTokenMint :: pubkey
  conditionalOnRevertTokenMint :: pubkey

record openOrdersIndexer_account =
  createdCounter :: nat

text \<open>A node of the event heap carries an event of 1 + 143 bytes.\<close>

record AnyEvent =
  eventType :: "8 word"
  padding :: "8 word list"

record EventNode =
  event :: AnyEvent

record eventHeap_account =
  nodes :: "EventNode list"

record FillEvent =
  maker :: pubkey

record OutEvent =
  owner :: pubkey

subsection \<open>Program handles, instructions and transactions\<close>

datatype idl = OPENBOOK_IDL | OPENBOOK_TWAP_IDL

record Program =
  idl :: idl
  programId :: pubkey

text \<open>The order-book client returned by \<^verbatim>\<open>useOpenbook\<close>: the source reads its
  \<^verbatim>\<open>program\<close> and its \<^verbatim>\<open>programId\<close>.\<close>

record openbook_client =
  program :: Program
  client_programId :: pubkey

record Provider =
  provider_wallet_publicKey :: pubkey

record Wallet =
  wallet_publicKey :: "pubkey option"

datatype Side = Bid | Ask
datatype OrderType = Limit | Market
datatype SelfTradeBehavior = DecrementTake | CancelProvide | AbortTransaction

record PlaceOrderArgs =
  side :: Side
  priceLots :: int
  maxBaseLots :: int
  maxQuoteLotsIncludingFees :: int
  clientOrderId :: int
  orderType :: OrderType
  expiryTimestamp :: int
  selfTradeBehavior :: SelfTradeBehavior
  limit :: nat

datatype method_call =
    placeOrder PlaceOrderArgs
  | cancelOrderByClientId int
  | settleFunds
  | closeOpenOrdersAccount
  | consumeEvents int
  | otherMethod string   \<comment> \<open>an instruction built outside this hook\<close>

record AccountMeta =
  pubkey :: PublicKey
  isSigner :: bool
  isWritable :: bool

text \<open>
  An instruction records the program handle whose \<^verbatim>\<open>methods\<close> built it, the
  method with its arguments, the object given to \<^verbatim>\<open>.accounts({...})\<close> as an
  association list in the order of the source (\<open>None\<close> is \<^verbatim>\<open>null\<close>), and
  the list given to \<^verbatim>\<open>.remainingAccounts\<close>.
\<close>

record instruction =
  ix_program :: Program
  ix_method :: method_call
  ix_accounts :: "(string \<times> pubkey option) list"
  ix_remainingAccounts :: "AccountMeta list"

record MessageV0 =
  payerKey :: pubkey
  instructions :: "instruction list"
  recentBlockhash :: string

datatype transaction =
    Transaction "instruction list"
  | VersionedTransaction MessageV0

datatype seed = Buffer_from string | toBuffer pubkey

subsection \<open>What the hook takes from outside\<close>

text \<open>
  Constants and functions that the hook imports and that are not part of the
  file are parameters, collected in a record: the TWAP program id, the token
  program id and \<^verbatim>\<open>QUOTE_LOTS\<close>; the address derivations of the libraries and of
  \<^verbatim>\<open>lib/openbook\<close>; the two instruction builders of \<^verbatim>\<open>lib/openbook\<close>; the
  coder of the TWAP program's instructions; the decoder of the program's types.
  They are functions of their arguments. \<open>'n\<close> is the type of JavaScript
  numbers: division and \<^verbatim>\<open>Math.floor\<close> on them are the language's own (IEEE
  double) operations and are taken as they are; \<open>new_BN\<close> is the big-number
  constructor applied to such a number, \<open>None\<close> when it throws. Big numbers
  themselves are integers.

  Building an instruction encodes its arguments, and the coder throws when a
  number does not fit its field. \<open>createOpenOrdersInstruction\<close> therefore returns
  an error or its pair, and \<open>placeOrder_encodes\<close> says whether the coder accepts
  the arguments of \<^verbatim>\<open>placeOrder\<close>. The address derivations and
  \<open>createOpenOrdersIndexerInstruction\<close>, which encodes no argument, return.
\<close>

record 'n env =
  OPENBOOK_TWAP_PROGRAM_ID :: pubkey
  TOKEN_PROGRAM_ID :: pubkey
  QUOTE_LOTS :: 'n
  js_number :: "int \<Rightarrow> 'n"
  js_div :: "'n \<Rightarrow> 'n \<Rightarrow> 'n"
  Math_floor :: "'n \<Rightarrow> 'n"
  new_BN :: "'n \<Rightarrow> int option"
  shortKey :: "pubkey \<Rightarrow> string"
  findProgramAddressSync :: "seed list \<Rightarrow> pubkey \<Rightarrow> pubkey"
  getAssociatedTokenAddressSync :: "pubkey \<Rightarrow> pubkey \<Rightarrow> pubkey"
  findOpenOrders :: "int \<Rightarrow> pubkey \<Rightarrow> pubkey"
  findOpenOrdersIndexer :: "pubkey \<Rightarrow> pubkey"
  createOpenOrdersIndexerInstruction :: "Program \<Rightarrow> pubkey \<Rightarrow> pubkey \<Rightarrow> instruction"
  createOpenOrdersInstruction ::
    "Program \<Rightarrow> pubkey \<Rightarrow> int \<Rightarrow> string \<Rightarrow> pubkey \<Rightarrow> pubkey \<Rightarrow>
     error + instruction list \<times> pubkey"
  placeOrder_encodes :: "PlaceOrderArgs \<Rightarrow> bool"
  decode_FillEvent :: "8 word list \<Rightarrow> FillEvent"
  decode_OutEvent :: "8 word list \<Rightarrow> OutEvent"

text \<open>The answers of the network at the time of the call; \<open>Inl\<close> is a rejected
  request.\<close>

record rpc =
  fetch_openOrdersIndexer :: "pubkey \<Rightarrow> error + openOrdersIndexer_account option"
  fetch_eventHeap :: "pubkey \<Rightarrow> error + eventHeap_account option"
  getLatestBlockhash :: "error + string"
  getVaultMint :: "pubkey \<Rightarrow> error + vault_account"

definition SYSTEM_PROGRAM :: pubkey where
  "SYSTEM_PROGRAM = ''11111111111111111111111111111111''"

text \<open>The memoised TWAP program handle: absent when there is no provider.\<close>

definition openbookTwap :: "'n env \<Rightarrow> Provider option \<Rightarrow> Program option" where
  "openbookTwap E provider =
     (case provider of
        None \<Rightarrow> None
      | Some p \<Rightarrow> Some \<lparr>idl = OPENBOOK_TWAP_IDL, programId = OPENBOOK_TWAP_PROGRAM_ID E\<rparr>)"

section \<open>crankMarketTransactions\<close>

text \<open>
  The loop state is the array \<^verbatim>\<open>accounts\<close> and the next unused object
  reference. Decoding an event builds its result anew, so \<^verbatim>\<open>fillEvent.maker\<close>
  (or \<^verbatim>\<open>outEvent.owner\<close>) is a new object at every node; \<^verbatim>\<open>a !== b\<close> on
  objects compares the references, not the keys they hold. The decoded bytes are
  a zero byte followed by the event's padding.
\<close>

definition visit_node :: "'n env \<Rightarrow> EventNode \<Rightarrow> PublicKey list \<times> nat \<Rightarrow> PublicKey list \<times> nat" where
  "visit_node E node s =
     (case s of (accounts, fresh) \<Rightarrow>
        if eventType (event node) = 0 then
          (let fillEvent_maker = \<lparr>ref = fresh, key = maker (decode_FillEvent E (0 # padding (event node)))\<rparr>
           in (filter (\<lambda>a. ref a \<noteq> ref fillEvent_maker) accounts @ [fillEvent_maker], Suc fresh))
        else
          (let outEvent_owner = \<lparr>ref = fresh, key = owner (decode_OutEvent E (0 # padding (event node)))\<rparr>
           in (filter (\<lambda>a. ref a \<noteq> ref outEvent_owner) accounts @ [outEvent_owner], Suc fresh)))"

text \<open>The loop of the branch without \<^verbatim>\<open>individualEvent\<close>: it leaves as soon as
  the array holds more than 20 entries.\<close>

fun collect_capped :: "'n env \<Rightarrow> EventNode list \<Rightarrow> PublicKey list \<times> nat \<Rightarrow> PublicKey list \<times> nat" where
  "collect_capped E [] s = s"
| "collect_capped E (node # rest) s =
     (let s' = visit_node E node s
      in if length (fst s') > 20 then s' else collect_capped E rest s')"

text \<open>The loop of the branch with \<^verbatim>\<open>individualEvent\<close>: every node is visited.\<close>

fun collect_all :: "'n env \<Rightarrow> EventNode list \<Rightarrow> PublicKey list \<times> nat \<Rightarrow> PublicKey list \<times> nat" where
  "collect_all E [] s = s"
| "collect_all E (node # rest) s = collect_all E rest (visit_node E node s)"

definition crank_accounts ::
  "'n env \<Rightarrow> eventHeap_account option \<Rightarrow> PublicKey option \<Rightarrow> PublicKey list" where
  "crank_accounts E heap individualEvent =
     (case individualEvent of
        None \<Rightarrow>
          (case heap of
             None \<Rightarrow> []
           | Some h \<Rightarrow> fst (collect_capped E (nodes h) ([], 0)))
      | Some ie \<Rightarrow>
          (case heap of
             None \<Rightarrow> []
           | Some h \<Rightarrow> fst (collect_all E (nodes h) ([], 0))))"

definition crank_filteredAccounts ::
  "'n env \<Rightarrow> eventHeap_account option \<Rightarrow> PublicKey option \<Rightarrow> AccountMeta list" where
  "crank_filteredAccounts E heap individualEvent =
     (let accountsMeta =
            map (\<lambda>remaining. \<lparr>pubkey = remaining, isSigner = False, isWritable = True\<rparr>)
              (crank_accounts E heap individualEvent)
      in case individualEvent of
           None \<Rightarrow> accountsMeta
         | Some ie \<Rightarrow> filter (\<lambda>order. toString (pubkey order) = toString ie) accountsMeta)"

definition crankMarketTransactions ::
  "'n env \<Rightarrow> rpc \<Rightarrow> Wallet \<Rightarrow> openbook_client option \<Rightarrow> Provider option \<Rightarrow>
   MarketAccountWithKey \<Rightarrow> pubkey \<Rightarrow> PublicKey option \<Rightarrow> error + transaction list option" where
  "crankMarketTransactions E R wallet openbook provider market eventHeap_key individualEvent =
     (case (wallet_publicKey wallet, openbook, openbookTwap E provider) of
        (Some wallet_pk, Some ob, Some twap) \<Rightarrow>
          (case fetch_eventHeap R eventHeap_key of
             Inl e \<Rightarrow> Inl e
           | Inr heap \<Rightarrow>
               (let filteredAccounts = crank_filteredAccounts E heap individualEvent;
                    crankIx = \<lparr>ix_program = program ob,
                               ix_method = consumeEvents (int (length filteredAccounts)),
                               ix_accounts =
                                 [(''consumeEventsAdmin'', Some (client_programId ob)),
                                  (''market'', Some (publicKey market)),
                                  (''eventHeap'', Some (eventHeap (account market)))],
                               ix_remainingAccounts = filteredAccounts\<rparr>
                in case provider of
                     None \<Rightarrow> Inl TypeError
                   | Some p \<Rightarrow>
                       (case getLatestBlockhash R of
                          Inl e \<Rightarrow> Inl e
                        | Inr blockhash \<Rightarrow>
                            Inr (Some [VersionedTransaction
                                         \<lparr>payerKey = provider_wallet_publicKey p,
                                          instructions = [crankIx],
                                          recentBlockhash = blockhash\<rparr>]))))
      | _ \<Rightarrow> Inr None)"

section \<open>placeOrderTransactions\<close>

text \<open>An optional boolean parameter is \<open>None\<close> when the caller leaves it out; an
  optional number likewise. \<^verbatim>\<open>!x\<close> and \<^verbatim>\<open>x || 0\<close> follow the language's
  truthiness: undefined, false and 0 are falsy.\<close>

definition truthy :: "bool option \<Rightarrow> bool" where
  "truthy b = (case b of None \<Rightarrow> False | Some v \<Rightarrow> v)"

definition truthy_number :: "int option \<Rightarrow> bool" where
  "truthy_number x = (case x of None \<Rightarrow> False | Some v \<Rightarrow> v \<noteq> 0)"

definition or_zero :: "int option \<Rightarrow> int" where
  "or_zero x = (case x of None \<Rightarrow> 0 | Some v \<Rightarrow> v)"

text \<open>Decimal notation, as \<^verbatim>\<open>toString()\<close> of a big number and a template
  literal print an integer.\<close>

fun string_of_nat :: "nat \<Rightarrow> string" where
  "string_of_nat n =
     (if n < 10 then [char_of (48 + n)]
      else string_of_nat (n div 10) @ [char_of (48 + n mod 10)])"

definition BN_toString :: "int \<Rightarrow> string" where
  "BN_toString i = (if i < 0 then ''-'' @ string_of_nat (nat (- i)) else string_of_nat (nat i))"

text \<open>
  The big-number constructor applied to a number that is an integer: it throws from
  \<open>2^53\<close> on, in absolute value.
\<close>

definition new_BN_integer :: "int \<Rightarrow> int option" where
  "new_BN_integer n = (if \<bar>n\<bar> < 9007199254740992 then Some n else None)"

text \<open>
  The try block and its catch block: the instructions added to \<^verbatim>\<open>openTx\<close> and
  the account index. \<^verbatim>\<open>createdCounter\<close> and \<^verbatim>\<open>indexOffset\<close> are integers;
  their sum is converted inside the try block, so a failed fetch and a refused sum
  both enter the catch block. There the conversion of \<^verbatim>\<open>1 + indexOffset\<close> is
  not caught.
\<close>

definition open_orders_index ::
  "'n env \<Rightarrow> rpc \<Rightarrow> openbook_client \<Rightarrow> pubkey \<Rightarrow> pubkey \<Rightarrow> int option \<Rightarrow>
   error + instruction list \<times> int" where
  "open_orders_index E R ob openOrdersIndexer wallet_pk indexOffset =
     (case (case fetch_openOrdersIndexer R openOrdersIndexer of
              Inl e \<Rightarrow> None
            | Inr indexer \<Rightarrow>
                new_BN_integer
                  ((case indexer of None \<Rightarrow> 0 | Some i \<Rightarrow> int (createdCounter i)) + 1 +
                   or_zero indexOffset)) of
        Some accountIndex \<Rightarrow> Inr ([], accountIndex)
      | None \<Rightarrow>
          if \<not> truthy_number indexOffset then
            Inr ([createOpenOrdersIndexerInstruction E (program ob) openOrdersIndexer wallet_pk], 1)
          else
            (case new_BN_integer (1 + or_zero indexOffset) of
               None \<Rightarrow> Inl BNError
             | Some accountIndex \<Rightarrow> Inr ([], accountIndex)))"

text \<open>
  The order arguments. \<^verbatim>\<open>priceLots\<close> and \<^verbatim>\<open>maxBaseLots\<close> are converted
  first, whatever the kind of order; a market order then replaces the price and
  the quote limit.
\<close>

definition place_order_args ::
  "'n env \<Rightarrow> 'n \<Rightarrow> 'n \<Rightarrow> bool option \<Rightarrow> bool option \<Rightarrow> int \<Rightarrow> error + PlaceOrderArgs" where
  "place_order_args E amount price limitOrder ask accountIndex =
     (case new_BN E (Math_floor E (js_div E price (QUOTE_LOTS E))) of
        None \<Rightarrow> Inl BNError
      | Some priceLots0 \<Rightarrow>
     (case new_BN E (Math_floor E amount) of
        None \<Rightarrow> Inl BNError
      | Some maxBaseLots' \<Rightarrow>
     (case (if \<not> truthy limitOrder then
              (if truthy ask then
                 (case new_BN E (Math_floor E (js_div E (js_number E 10) (QUOTE_LOTS E))) of
                    None \<Rightarrow> Inl BNError
                  | Some q \<Rightarrow> Inr (1, q))
               else Inr (1000000000000000, 1000000000000000 * maxBaseLots'))
            else Inr (priceLots0, priceLots0 * maxBaseLots')) of
        Inl e \<Rightarrow> Inl e
      | Inr (priceLots', maxQuoteLotsIncludingFees') \<Rightarrow>
          Inr \<lparr>side = (if truthy ask then Ask else Bid),
               priceLots = priceLots',
               maxBaseLots = maxBaseLots',
               maxQuoteLotsIncludingFees = maxQuoteLotsIncludingFees',
               clientOrderId = accountIndex,
               orderType = (if truthy limitOrder then Limit else Market),
               expiryTimestamp = 0,
               selfTradeBehavior = AbortTransaction,
               limit = 255\<rparr>)))"

text \<open>
  The builder. After the guard it can be rejected at four places: in the catch
  block, in \<^verbatim>\<open>createOpenOrdersInstruction\<close>, in a conversion to a big number,
  and when \<^verbatim>\<open>.transaction()\<close> encodes the arguments.
\<close>

definition placeOrderTransactions ::
  "'n env \<Rightarrow> rpc \<Rightarrow> Wallet \<Rightarrow> openbook_client option \<Rightarrow> Provider option \<Rightarrow>
   'n \<Rightarrow> 'n \<Rightarrow> MarketAccountWithKey \<Rightarrow> bool option \<Rightarrow> bool option \<Rightarrow> bool option \<Rightarrow> int option \<Rightarrow>
   error + transaction list option" where
  "placeOrderTransactions E R wallet openbook provider amount price market limitOrder ask pass indexOffset =
     (case (wallet_publicKey wallet, openbook, openbookTwap E provider) of
        (Some wallet_pk, Some ob, Some twap) \<Rightarrow>
          (let mint = (if truthy ask then baseMint (account market) else quoteMint (account market));
               openOrdersIndexer = findOpenOrdersIndexer E wallet_pk
           in case open_orders_index E R ob openOrdersIndexer wallet_pk indexOffset of
                Inl e \<Rightarrow> Inl e
              | Inr (openTx0, accountIndex) \<Rightarrow>
           (case createOpenOrdersInstruction E (program ob) (publicKey market) accountIndex
                   (shortKey E wallet_pk @ ''-'' @ BN_toString accountIndex) wallet_pk openOrdersIndexer of
                Inl e \<Rightarrow> Inl e
              | Inr (ixs, openOrdersAccount) \<Rightarrow>
           (let openTx = openTx0 @ ixs
            in case place_order_args E amount price limitOrder ask accountIndex of
                 Inl e \<Rightarrow> Inl e
               | Inr args \<Rightarrow>
                  (let placeIx = \<lparr>ix_program = twap,
                                  ix_method = placeOrder args,
                                  ix_accounts =
                                    [(''openOrdersAccount'', Some openOrdersAccount),
                                     (''asks'', Some (asks (account market))),
                                     (''bids'', Some (bids (account market))),
                                     (''eventHeap'', Some (eventHeap (account market))),
                                     (''market'', Some (publicKey market)),
                                     (''marketVault'',
                                        Some (if truthy ask then marketBaseVault (account market)
                                              else marketQuoteVault (account market))),
                                     (''twapMarket'',
                                        Some (findProgramAddressSync E
                                                [Buffer_from ''twap_market'', toBuffer (publicKey market)]
                                                (OPENBOOK_TWAP_PROGRAM_ID E))),
                                     (''userTokenAccount'',
                                        Some (getAssociatedTokenAddressSync E mint wallet_pk)),
                                     (''openbookProgram'', Some (client_programId ob))],
                                  ix_remainingAccounts = []\<rparr>
                   in if placeOrder_encodes E args
                      then Inr (Some [Transaction (openTx @ [placeIx])])
                      else Inl EncodeError))))
      | _ \<Rightarrow> Inr None)"

section \<open>settleFundsTransactions, closeOpenOrdersAccountTransactions, cancelOrderTransactions\<close>

definition settleFundsTransactions ::
  "'n env \<Rightarrow> rpc \<Rightarrow> Wallet \<Rightarrow> openbook_client option \<Rightarrow>
   int \<Rightarrow> bool \<Rightarrow> ProposalAccountWithKey \<Rightarrow> MarketAccountWithKey \<Rightarrow> error + transaction list option" where
  "settleFundsTransactions E R wallet openbook orderId passMarket proposal market =
     (case (wallet_publicKey wallet, openbook) of
        (Some wallet_pk, Some ob) \<Rightarrow>
          (case getVaultMint R (quoteVault (proposal_account proposal)) of
             Inl e \<Rightarrow> Inl e
           | Inr quoteVault' \<Rightarrow>
          (case getVaultMint R (baseVault (proposal_account proposal)) of
             Inl e \<Rightarrow> Inl e
           | Inr baseVault' \<Rightarrow>
              (let openOrdersAccount = findOpenOrders E orderId wallet_pk;
                   userBasePass = getAssociatedTokenAddressSync E (conditionalOnFinalizeTokenMint baseVault') wallet_pk;
                   userQuotePass = getAssociatedTokenAddressSync E (conditionalOnFinalizeTokenMint quoteVault') wallet_pk;
                   userBaseFail = getAssociatedTokenAddressSync E (conditionalOnRevertTokenMint baseVault') wallet_pk;
                   userQuoteFail = getAssociatedTokenAddressSync E (conditionalOnRevertTokenMint quoteVault') wallet_pk;
                   userBaseAccount = (if passMarket then userBasePass else userBaseFail);
                   userQuoteAccount = (if passMarket then userQuotePass else userQuoteFail);
                   placeIx = \<lparr>ix_program = program ob,
                              ix_method = settleFunds,
                              ix_accounts =
                                [(''owner'', Some wallet_pk),
                                 (''penaltyPayer'', Some wallet_pk),
                                 (''openOrdersAccount'', Some openOrdersAccount),
                                 (''market'', Some (publicKey market)),
                                 (''marketAuthority'', Some (marketAuthority (account market))),
                                 (''marketBaseVault'', Some (marketBaseVault (account market))),
                                 (''marketQuoteVault'', Some (marketQuoteVault (account market))),
                                 (''userBaseAccount'', Some userBaseAccount),
                                 (''userQuoteAccount'', Some userQuoteAccount),
                                 (''referrerAccount'', None),
                                 (''tokenProgram'', Some (TOKEN_PROGRAM_ID E)),
                                 (''systemProgram'', Some SYSTEM_PROGRAM)],
                              ix_remainingAccounts = []\<rparr>
               in Inr (Some [Transaction [placeIx]]))))
      | _ \<Rightarrow> Inr None)"

definition closeOpenOrdersAccountTransactions ::
  "'n env \<Rightarrow> Wallet \<Rightarrow> openbook_client option \<Rightarrow> int \<Rightarrow> error + transaction list option" where
  "closeOpenOrdersAccountTransactions E wallet openbook orderId =
     (case (wallet_publicKey wallet, openbook) of
        (Some wallet_pk, Some ob) \<Rightarrow>
          (let openOrdersIndexer = findOpenOrdersIndexer E wallet_pk;
               openOrdersAccount = findOpenOrders E orderId wallet_pk;
               closeIx = \<lparr>ix_program = program ob,
                          ix_method = closeOpenOrdersAccount,
                          ix_accounts =
                            [(''owner'', Some wallet_pk),
                             (''openOrdersIndexer'', Some openOrdersIndexer),
                             (''openOrdersAccount'', Some openOrdersAccount),
                             (''solDestination'', Some wallet_pk)],
                          ix_remainingAccounts = []\<rparr>
           in Inr (Some [Transaction [closeIx]]))
      | _ \<Rightarrow> Inr None)"

definition cancelOrderTransactions ::
  "'n env \<Rightarrow> Wallet \<Rightarrow> openbook_client option \<Rightarrow> Provider option \<Rightarrow>
   int \<Rightarrow> MarketAccountWithKey \<Rightarrow> error + transaction list option" where
  "cancelOrderTransactions E wallet openbook provider orderId market =
     (case (wallet_publicKey wallet, openbook, openbookTwap E provider) of
        (Some wallet_pk, Some ob, Some twap) \<Rightarrow>
          (let openOrdersAccount = findOpenOrders E orderId wallet_pk;
               placeIx = \<lparr>ix_program = twap,
                          ix_method = cancelOrderByClientId orderId,
                          ix_accounts =
                            [(''openOrdersAccount'', Some openOrdersAccount),
                             (''asks'', Some (asks (account market))),
                             (''bids'', Some (bids (account market))),
                             (''market'', Some (publicKey market)),
                             (''twapMarket'',
                                Some (findProgramAddressSync E
                                        [Buffer_from ''twap_market'', toBuffer (publicKey market)]
                                        (OPENBOOK_TWAP_PROGRAM_ID E))),
                             (''openbookProgram'', Some (client_programId ob))],
                          ix_remainingAccounts = []\<rparr>
           in Inr (Some [Transaction [placeIx]]))
      | _ \<Rightarrow> Inr None)"

section \<open>The component ProposalList\<close>

text \<open>A rendered tree: an element has a tag, a key when one is given, its
  properties and its children; a child may also be a text or a number.\<close>

datatype handler = router_push string

datatype prop_value =
    Str string
  | Num int
  | Flag
  | Proposal ProposalAccountWithKey
  | OnClick handler

datatype element =
    Element (tag: string) (element_key: "string option") (props: "(string \<times> prop_value) list")
            (children: "element list")
  | text_child string
  | number_child int

definition proposal_card :: "(pubkey \<Rightarrow> string) \<Rightarrow> ProposalAccountWithKey \<Rightarrow> element" where
  "proposal_card shortKey_fn proposal =
     Element ''Card'' (Some (proposal_publicKey proposal))
       [(''shadow'', Str ''sm''), (''radius'', Str ''md''), (''withBorder'', Flag),
        (''m'', Str ''0''), (''px'', Str ''24''), (''py'', Str ''12'')]
       [Element ''Stack'' None [(''pr'', Str ''sm'')]
          [Element ''Group'' None [(''justify'', Str ''space-between'')]
             [Element ''Text'' None [(''size'', Str ''xl''), (''fw'', Num 500)]
                [text_child ''Proposal #'',
                 number_child (int (number (proposal_account proposal)) + 1)],
              Element ''StateBadge'' None [(''proposal'', Proposal proposal)] []],
           Element ''Group'' None [(''justify'', Str ''space-between'')]
             [Element ''Link'' None [(''href'', Str (descriptionUrl (proposal_account proposal)))]
                [Element ''Group'' None [(''gap'', Str ''sm'')]
                   [Element ''Text'' None [] [text_child ''Go to description''],
                    Element ''IconExternalLink'' None [] []]],
              Element ''Text'' None []
                [text_child ''Proposed by '',
                 text_child (shortKey_fn (proposer (proposal_account proposal)))]]],
        Element ''Group'' None []
          [Element ''Button'' None
             [(''m'', Str ''sm''), (''variant'', Str ''default''), (''fullWidth'', Flag),
              (''onClick'',
                 OnClick (router_push
                   (''/proposal?id='' @ string_of_nat (number (proposal_account proposal)))))]
             [Element ''Group'' None []
                [Element ''Text'' None [] [text_child ''Trade''],
                 Element ''IconCoin'' None [] []]]]]"

definition ProposalList :: "(pubkey \<Rightarrow> string) \<Rightarrow> ProposalAccountWithKey list option \<Rightarrow> element" where
  "ProposalList shortKey_fn proposals =
     (case proposals of
        None \<Rightarrow> Element ''Group'' None [(''justify'', Str ''center'')] [Element ''Loader'' None [] []]
      | Some ps \<Rightarrow>
          if length ps > 0 then Element ''Stack'' None [] (map (proposal_card shortKey_fn) ps)
          else Element ''Text'' None [(''size'', Str ''lg''), (''ta'', Str ''center''), (''fw'', Str ''bold'')]
                 [text_child ''There are no proposals yet''])"

text \<open>The elements of a tree, the root first, in document order.\<close>

fun subelements :: "element \<Rightarrow> element list" where
  "subelements (Element t k ps cs) = Element t k ps cs # concat (map subelements cs)"
| "subelements (text_child s) = [text_child s]"
| "subelements (number_child n) = [number_child n]"

definition with_tag :: "string \<Rightarrow> element \<Rightarrow> element list" where
  "with_tag t e = filter (\<lambda>x. case x of Element t' k ps cs \<Rightarrow> t' = t | _ \<Rightarrow> False) (subelements e)"

section \<open>Auxiliary notions for the statements\<close>

text \<open>The key that visiting a node appends, and the invariant of the loop state:
  every reference in the array is older than the next one to be handed out.\<close>

definition refs_below :: "PublicKey list \<times> nat \<Rightarrow> bool" where
  "refs_below s = (\<forall>a \<in> set (fst s). ref a < snd s)"

definition node_key :: "'n env \<Rightarrow> EventNode \<Rightarrow> pubkey" where
  "node_key E node =
     (if eventType (event node) = 0 then maker (decode_FillEvent E (0 # padding (event node)))
      else owner (decode_OutEvent E (0 # padding (event node))))"

text \<open>The nodes of a fetched event heap; none when the account is null.\<close>

definition heap_nodes :: "eventHeap_account option \<Rightarrow> EventNode list" where
  "heap_nodes heap = (case heap of None \<Rightarrow> [] | Some h \<Rightarrow> nodes h)"


text \<open>The \<^verbatim>\<open>placeOrder\<close> instruction that the builder adds, as a function of what
  it is built from.\<close>

definition placeOrder_instruction ::
  "'n env \<Rightarrow> pubkey \<Rightarrow> openbook_client \<Rightarrow> MarketAccountWithKey \<Rightarrow> bool option \<Rightarrow> pubkey \<Rightarrow>
   PlaceOrderArgs \<Rightarrow> instruction" where
  "placeOrder_instruction E pk ob market ask openOrdersAccount args =
     \<lparr>ix_program = \<lparr>idl = OPENBOOK_TWAP_IDL, programId = OPENBOOK_TWAP_PROGRAM_ID E\<rparr>,
      ix_method = placeOrder args,
      ix_accounts =
        [(''openOrdersAccount'', Some openOrdersAccount),
         (''asks'', Some (asks (account market))),
         (''bids'', Some (bids (account market))),
         (''eventHeap'', Some (eventHeap (account market))),
         (''market'', Some (publicKey market)),
         (''marketVault'',
            Some (if truthy ask then marketBaseVault (account market)
                  else marketQuoteVault (account market))),
         (''twapMarket'',
            Some (findProgramAddressSync E
                    [Buffer_from ''twap_market'', toBuffer (publicKey market)]
                    (OPENBOOK_TWAP_PROGRAM_ID E))),
         (''userTokenAccount'',
            Some (getAssociatedTokenAddressSync E
                    (if truthy ask then baseMint (account market) else quoteMint (account market)) pk)),
         (''openbookProgram'', Some (client_programId ob))],
      ix_remainingAccounts = []\<rparr>"

section \<open>A concrete environment for the examples\<close>

text \<open>Numbers are rationals here and derived addresses are readable strings. The
  open-orders account is built for an index of 32 bits, and the coder of
  \<^verbatim>\<open>placeOrder\<close> takes numbers of at most 8 bytes and a limit of one byte.\<close>

definition seed_text :: "seed \<Rightarrow> string" where
  "seed_text s = (case s of Buffer_from t \<Rightarrow> t | toBuffer k \<Rightarrow> k)"

definition example_env :: "rat env" where
  "example_env =
     \<lparr>OPENBOOK_TWAP_PROGRAM_ID = ''twapProgram'',
      TOKEN_PROGRAM_ID = ''tokenProgram'',
      QUOTE_LOTS = 1 / 10000,
      js_number = of_int,
      js_div = (\<lambda>a b. a / b),
      Math_floor = (\<lambda>x. of_int \<lfloor>x\<rfloor>),
      new_BN = (\<lambda>x. if \<bar>x\<bar> < 9007199254740992 then Some \<lfloor>x\<rfloor> else None),
      shortKey = take 4,
      findProgramAddressSync = (\<lambda>seeds pid. ''pda/'' @ concat (map seed_text seeds) @ ''/'' @ pid),
      getAssociatedTokenAddressSync = (\<lambda>mint own. ''ata/'' @ mint @ ''/'' @ own),
      findOpenOrders = (\<lambda>i own. ''oo/'' @ BN_toString i @ ''/'' @ own),
      findOpenOrdersIndexer = (\<lambda>own. ''ooi/'' @ own),
      createOpenOrdersIndexerInstruction =
        (\<lambda>p indexer own. \<lparr>ix_program = p, ix_method = otherMethod ''createOpenOrdersIndexer'',
                            ix_accounts = [(''openOrdersIndexer'', Some indexer), (''owner'', Some own)],
                            ix_remainingAccounts = []\<rparr>),
      createOpenOrdersInstruction =
        (\<lambda>p m i name own indexer.
           if 0 \<le> i \<and> i < 4294967296 then
             Inr ([\<lparr>ix_program = p, ix_method = otherMethod ''createOpenOrdersAccount'',
                    ix_accounts = [(''openOrdersAccount'', Some (''oo/'' @ BN_toString i @ ''/'' @ own)),
                                   (''market'', Some m)],
                    ix_remainingAccounts = []\<rparr>],
                  ''oo/'' @ BN_toString i @ ''/'' @ own)
           else Inl EncodeError),
      placeOrder_encodes =
        (\<lambda>a. \<bar>priceLots a\<bar> < 18446744073709551616 \<and>
             \<bar>maxBaseLots a\<bar> < 18446744073709551616 \<and>
             \<bar>maxQuoteLotsIncludingFees a\<bar> < 18446744073709551616 \<and>
             \<bar>clientOrderId a\<bar> < 18446744073709551616 \<and>
             \<bar>expiryTimestamp a\<bar> < 18446744073709551616 \<and>
             limit a < 256),
      decode_FillEvent = (\<lambda>bytes. \<lparr>maker = (if bytes = [0, 1] then ''alice'' else ''bob'')\<rparr>),
      decode_OutEvent = (\<lambda>bytes. \<lparr>owner = (if bytes = [0, 1] then ''carol'' else ''dave'')\<rparr>)\<rparr>"

definition example_market :: MarketAccountWithKey where
  "example_market =
     \<lparr>publicKey = ''market'',
      account = \<lparr>asks = ''asks'', bids = ''bids'', eventHeap = ''heap'', baseMint = ''baseMint'',
                 quoteMint = ''quoteMint'', marketBaseVault = ''baseVault'',
                 marketQuoteVault = ''quoteVault'', marketAuthority = ''authority''\<rparr>\<rparr>"

definition example_wallet :: Wallet where
  "example_wallet = \<lparr>wallet_publicKey = Some ''walletKey''\<rparr>"

definition example_openbook :: openbook_client where
  "example_openbook =
     \<lparr>program = \<lparr>idl = OPENBOOK_IDL, programId = ''openbookProgram''\<rparr>,
      client_programId = ''openbookProgram''\<rparr>"

definition example_provider :: Provider where
  "example_provider = \<lparr>provider_wallet_publicKey = ''walletKey''\<rparr>"

definition fill_node :: "8 word \<Rightarrow> EventNode" where
  "fill_node b = \<lparr>event = \<lparr>eventType = 0, padding = [b]\<rparr>\<rparr>"

definition out_node :: "8 word \<Rightarrow> EventNode" where
  "out_node b = \<lparr>event = \<lparr>eventType = 1, padding = [b]\<rparr>\<rparr>"

definition example_rpc :: "eventHeap_account option \<Rightarrow> rpc" where
  "example_rpc heap =
     \<lparr>fetch_openOrdersIndexer = (\<lambda>k. Inr (Some \<lparr>createdCounter = 2\<rparr>)),
      fetch_eventHeap = (\<lambda>k. Inr heap),
      getLatestBlockhash = Inr ''blockhash'',
      getVaultMint = (\<lambda>v. Inr \<lparr>conditionalOnFinalizeTokenMint = ''pass/'' @ v,
                                conditionalOnRevertTokenMint = ''fail/'' @ v\<rparr>)\<rparr>"


text \<open>Putting instructions in front of those of a returned transaction.\<close>

fun prepend_instructions ::
  "instruction list \<Rightarrow> error + transaction list option \<Rightarrow> error + transaction list option" where
  "prepend_instructions pre (Inr (Some [Transaction ixs])) = Inr (Some [Transaction (pre @ ixs)])"
| "prepend_instructions pre r = r"

section \<open>Properties of crankMarketTransactions\<close>

lemma visit_node_length:
  "length (fst (visit_node E node s)) \<le> Suc (length (fst s))"
  by (cases s) (simp add: visit_node_def Let_def le_imp_less_Suc less_Suc_eq_le)

lemma collect_capped_length:
  "length (fst s) \<le> 20 \<Longrightarrow> length (fst (collect_capped E ns s)) \<le> 21"
proof (induction ns arbitrary: s)
  case Nil
  then show ?case by simp
next
  case (Cons node rest)
  have step: "length (fst (visit_node E node s)) \<le> 21"
    using visit_node_length [of E node s] Cons.prems by linarith
  show ?case
  proof (cases "length (fst (visit_node E node s)) > 20")
    case True
    with step show ?thesis by (simp add: Let_def)
  next
    case False
    then have "length (fst (visit_node E node s)) \<le> 20" by simp
    from Cons.IH [OF this] False show ?thesis by (simp add: Let_def)
  qed
qed

lemma visit_node_appends:
  assumes "refs_below s"
  shows "fst (visit_node E node s) = fst s @ [\<lparr>ref = snd s, key = node_key E node\<rparr>]"
    and "snd (visit_node E node s) = Suc (snd s)"
    and "refs_below (visit_node E node s)"
proof -
  obtain accounts fresh where s: "s = (accounts, fresh)" by (cases s)
  from assms s have keep: "filter (\<lambda>a. ref a \<noteq> fresh) accounts = accounts"
    by (auto simp: refs_below_def filter_id_conv)
  show "fst (visit_node E node s) = fst s @ [\<lparr>ref = snd s, key = node_key E node\<rparr>]"
    using keep by (simp add: s visit_node_def node_key_def Let_def)
  show "snd (visit_node E node s) = Suc (snd s)"
    by (simp add: s visit_node_def Let_def)
  show "refs_below (visit_node E node s)"
    using assms keep by (auto simp: s visit_node_def refs_below_def Let_def less_Suc_eq)
qed

lemma collect_all_keys:
  "refs_below s \<Longrightarrow>
   map key (fst (collect_all E ns s)) = map key (fst s) @ map (node_key E) ns"
proof (induction ns arbitrary: s)
  case Nil
  then show ?case by simp
next
  case (Cons node rest)
  from visit_node_appends [OF Cons.prems, of E node]
  show ?case using Cons.IH [of "visit_node E node s"] by simp
qed

lemma collect_capped_keys:
  "refs_below s \<Longrightarrow> length (fst s) \<le> 20 \<Longrightarrow>
   map key (fst (collect_capped E ns s)) = map key (fst s) @ map (node_key E) (take (21 - length (fst s)) ns)"
proof (induction ns arbitrary: s)
  case Nil
  then show ?case by simp
next
  case (Cons node rest)
  note v = visit_node_appends [OF Cons.prems(1), of E node]
  show ?case
  proof (cases "length (fst (visit_node E node s)) > 20")
    case True
    with v(1) Cons.prems(2) have "length (fst s) = 20" by simp
    with True v(1) show ?thesis by (simp add: Let_def)
  next
    case False
    then have le: "length (fst (visit_node E node s)) \<le> 20" by simp
    have "21 - length (fst s) = Suc (21 - length (fst (visit_node E node s)))"
      using v(1) le by simp
    with Cons.IH [OF v(3) le] False v(1) show ?thesis by (simp add: Let_def)
  qed
qed

lemma crankMarketTransactions_returns:
  assumes "crankMarketTransactions E R wallet openbook provider market heap_key individualEvent = Inr (Some txs)"
  obtains ob p heap blockhash where
           "openbook = Some ob" "provider = Some p" "fetch_eventHeap R heap_key = Inr heap"
           "txs = [VersionedTransaction
                   \<lparr>payerKey = provider_wallet_publicKey p,
                    instructions =
                      [\<lparr>ix_program = program ob,
                        ix_method = consumeEvents (int (length (crank_filteredAccounts E heap individualEvent))),
                        ix_accounts =
                          [(''consumeEventsAdmin'', Some (client_programId ob)),
                           (''market'', Some (publicKey market)),
                           (''eventHeap'', Some (eventHeap (account market)))],
                        ix_remainingAccounts = crank_filteredAccounts E heap individualEvent\<rparr>],
                    recentBlockhash = blockhash\<rparr>]"
  using assms
  by (auto simp: crankMarketTransactions_def Let_def split: option.splits sum.splits)

lemma crank_accounts_length:
  "length (crank_accounts E heap None) \<le> 21"
  by (simp add: crank_accounts_def collect_capped_length split: option.splits)

text \<open>Since every visited node brings a new object, the filter by reference removes
  nothing: without \<^verbatim>\<open>individualEvent\<close> the array holds the decoded keys of the
  first 21 nodes, repetitions included, and with it those of all nodes.\<close>

lemma crank_accounts_keys:
  "map key (crank_accounts E heap None) = map (node_key E) (take 21 (heap_nodes heap))"
proof (cases heap)
  case None
  then show ?thesis by (simp add: crank_accounts_def heap_nodes_def)
next
  case (Some h)
  then show ?thesis
    using collect_capped_keys [of "([], 0)" E "nodes h"]
    by (simp add: crank_accounts_def heap_nodes_def refs_below_def)
qed

lemma crank_accounts_all_keys:
  "map key (crank_accounts E heap (Some ie)) = map (node_key E) (heap_nodes heap)"
proof (cases heap)
  case None
  then show ?thesis by (simp add: crank_accounts_def heap_nodes_def)
next
  case (Some h)
  then show ?thesis
    using collect_all_keys [of "([], 0)" E "nodes h"]
    by (simp add: crank_accounts_def heap_nodes_def refs_below_def)
qed

text \<open>\<^verbatim>\<open>crankMarketTransactions\<close> returns when the guard passes and both network
  requests are answered, and is rejected when one of them is.\<close>

lemma crankMarketTransactions_total:
  assumes "wallet_publicKey wallet = Some pk" "openbook = Some ob" "provider = Some pv"
    and "fetch_eventHeap R heap_key = Inr heap" "getLatestBlockhash R = Inr blockhash"
  shows "\<exists>txs. crankMarketTransactions E R wallet openbook provider market heap_key individualEvent
                 = Inr (Some txs)"
  by (simp add: crankMarketTransactions_def assms openbookTwap_def Let_def)

lemma crankMarketTransactions_rejected:
  assumes "wallet_publicKey wallet = Some pk" "openbook = Some ob" "provider = Some pv"
    and "fetch_eventHeap R heap_key = Inl e \<or> getLatestBlockhash R = Inl e"
  shows "\<exists>e'. crankMarketTransactions E R wallet openbook provider market heap_key individualEvent
                = Inl e'"
  using assms(4)
  by (auto simp: crankMarketTransactions_def assms(1-3) openbookTwap_def Let_def split: sum.splits)

text \<open>
  Claim C9: without an \<^verbatim>\<open>individualEvent\<close> the remaining accounts given to
  \<^verbatim>\<open>consumeEvents\<close> are at most 21: they are accumulated over the nodes of the
  heap, one entry per node, until the list holds more than 20, so they are the keys of
  the first 21 nodes (of all nodes when there are fewer). Every entry is writable
  and not a signer, and the limit argument is the length of the list. With an
  \<^verbatim>\<open>individualEvent\<close> the list is the entries of all nodes whose key string
  equals that of the \<^verbatim>\<open>individualEvent\<close>.
\<close>

theorem crank_remaining_accounts:
  assumes "crankMarketTransactions E R wallet openbook provider market heap_key individualEvent = Inr (Some txs)"
  shows "\<exists>msg ix heap.
           txs = [VersionedTransaction msg] \<and> instructions msg = [ix] \<and>
           fetch_eventHeap R heap_key = Inr heap \<and>
           ix_method ix = consumeEvents (int (length (ix_remainingAccounts ix))) \<and>
           (\<forall>m \<in> set (ix_remainingAccounts ix). isWritable m \<and> \<not> isSigner m) \<and>
           (individualEvent = None \<longrightarrow>
              length (ix_remainingAccounts ix) \<le> 21 \<and>
              length (ix_remainingAccounts ix) = min 21 (length (heap_nodes heap)) \<and>
              map (\<lambda>m. toString (pubkey m)) (ix_remainingAccounts ix) =
                map (node_key E) (take 21 (heap_nodes heap))) \<and>
           (\<forall>ie. individualEvent = Some ie \<longrightarrow>
              ix_remainingAccounts ix =
                filter (\<lambda>m. toString (pubkey m) = toString ie)
                  (map (\<lambda>a. \<lparr>pubkey = a, isSigner = False, isWritable = True\<rparr>)
                     (crank_accounts E heap individualEvent)) \<and>
              (\<forall>m \<in> set (ix_remainingAccounts ix). toString (pubkey m) = toString ie) \<and>
              map (\<lambda>m. toString (pubkey m)) (ix_remainingAccounts ix) =
                filter (\<lambda>k. k = toString ie) (map (node_key E) (heap_nodes heap)))"
proof -
  from assms obtain ob p heap blockhash where
    "openbook = Some ob" and "provider = Some p" and
    heap: "fetch_eventHeap R heap_key = Inr heap" and
    txs: "txs = [VersionedTransaction
                   \<lparr>payerKey = provider_wallet_publicKey p,
                    instructions =
                      [\<lparr>ix_program = program ob,
                        ix_method = consumeEvents (int (length (crank_filteredAccounts E heap individualEvent))),
                        ix_accounts =
                          [(''consumeEventsAdmin'', Some (client_programId ob)),
                           (''market'', Some (publicKey market)),
                           (''eventHeap'', Some (eventHeap (account market)))],
                        ix_remainingAccounts = crank_filteredAccounts E heap individualEvent\<rparr>],
                    recentBlockhash = blockhash\<rparr>]"
    by (rule crankMarketTransactions_returns)
  define ix where
    "ix = \<lparr>ix_program = program ob,
           ix_method = consumeEvents (int (length (crank_filteredAccounts E heap individualEvent))),
           ix_accounts =
             [(''consumeEventsAdmin'', Some (client_programId ob)),
              (''market'', Some (publicKey market)),
              (''eventHeap'', Some (eventHeap (account market)))],
           ix_remainingAccounts = crank_filteredAccounts E heap individualEvent\<rparr>"
  define msg where
    "msg = \<lparr>payerKey = provider_wallet_publicKey p, instructions = [ix], recentBlockhash = blockhash\<rparr>"
  have rem: "ix_remainingAccounts ix = crank_filteredAccounts E heap individualEvent"
    by (simp add: ix_def)
  have meth: "ix_method ix = consumeEvents (int (length (ix_remainingAccounts ix)))"
    by (simp add: ix_def)
  have t: "txs = [VersionedTransaction msg]"
    by (simp add: txs msg_def ix_def)
  have i: "instructions msg = [ix]"
    by (simp add: msg_def)
  have flags: "\<forall>m \<in> set (ix_remainingAccounts ix). isWritable m \<and> \<not> isSigner m"
    unfolding rem by (cases individualEvent) (auto simp: crank_filteredAccounts_def Let_def)
  have names: "individualEvent = None \<longrightarrow>
      map (\<lambda>m. toString (pubkey m)) (ix_remainingAccounts ix) =
        map (node_key E) (take 21 (heap_nodes heap))"
    unfolding rem
    by (auto simp: crank_filteredAccounts_def toString_def comp_def crank_accounts_keys)
  have cap: "individualEvent = None \<longrightarrow>
      length (ix_remainingAccounts ix) \<le> 21 \<and>
      length (ix_remainingAccounts ix) = min 21 (length (heap_nodes heap)) \<and>
      map (\<lambda>m. toString (pubkey m)) (ix_remainingAccounts ix) =
        map (node_key E) (take 21 (heap_nodes heap))"
  proof
    assume none: "individualEvent = None"
    with names have n: "map (\<lambda>m. toString (pubkey m)) (ix_remainingAccounts ix) =
        map (node_key E) (take 21 (heap_nodes heap))" by simp
    from arg_cong [OF n, of length]
    have l: "length (ix_remainingAccounts ix) = min 21 (length (heap_nodes heap))"
      by (simp add: min.commute)
    from l n show "length (ix_remainingAccounts ix) \<le> 21 \<and>
      length (ix_remainingAccounts ix) = min 21 (length (heap_nodes heap)) \<and>
      map (\<lambda>m. toString (pubkey m)) (ix_remainingAccounts ix) =
        map (node_key E) (take 21 (heap_nodes heap))"
      by simp
  qed
  have only: "\<forall>ie. individualEvent = Some ie \<longrightarrow>
      ix_remainingAccounts ix =
        filter (\<lambda>m. toString (pubkey m) = toString ie)
          (map (\<lambda>a. \<lparr>pubkey = a, isSigner = False, isWritable = True\<rparr>)
             (crank_accounts E heap individualEvent)) \<and>
      (\<forall>m \<in> set (ix_remainingAccounts ix). toString (pubkey m) = toString ie) \<and>
      map (\<lambda>m. toString (pubkey m)) (ix_remainingAccounts ix) =
        filter (\<lambda>k. k = toString ie) (map (node_key E) (heap_nodes heap))"
  proof (intro allI impI)
    fix ie assume some: "individualEvent = Some ie"
    have r: "ix_remainingAccounts ix =
        filter (\<lambda>m. toString (pubkey m) = toString ie)
          (map (\<lambda>a. \<lparr>pubkey = a, isSigner = False, isWritable = True\<rparr>)
             (crank_accounts E heap individualEvent))"
      unfolding rem by (simp add: crank_filteredAccounts_def Let_def some)
    have m: "\<forall>m \<in> set (ix_remainingAccounts ix). toString (pubkey m) = toString ie"
      unfolding r by simp
    have "map (\<lambda>m. toString (pubkey m)) (ix_remainingAccounts ix) =
        filter (\<lambda>k. k = toString ie) (map key (crank_accounts E heap (Some ie)))"
      unfolding r some by (simp add: filter_map comp_def toString_def)
    then have k: "map (\<lambda>m. toString (pubkey m)) (ix_remainingAccounts ix) =
        filter (\<lambda>k. k = toString ie) (map (node_key E) (heap_nodes heap))"
      by (simp only: crank_accounts_all_keys)
    from r m k show "ix_remainingAccounts ix =
        filter (\<lambda>m. toString (pubkey m) = toString ie)
          (map (\<lambda>a. \<lparr>pubkey = a, isSigner = False, isWritable = True\<rparr>)
             (crank_accounts E heap individualEvent)) \<and>
      (\<forall>m \<in> set (ix_remainingAccounts ix). toString (pubkey m) = toString ie) \<and>
      map (\<lambda>m. toString (pubkey m)) (ix_remainingAccounts ix) =
        filter (\<lambda>k. k = toString ie) (map (node_key E) (heap_nodes heap))"
      by (intro conjI)
  qed
  from t i heap meth flags cap only show ?thesis
    by blast
qed

lemmas example_defs =
  example_env_def example_rpc_def example_wallet_def example_openbook_def example_provider_def
  example_market_def fill_node_def out_node_def openbookTwap_def


text \<open>The theorem at a heap of 25 events (12 fills of one maker, then 13 out events of
  one owner) without an \<^verbatim>\<open>individualEvent\<close>, where the list stops at 21 entries,
  and at a heap of three events with an \<^verbatim>\<open>individualEvent\<close>.\<close>

theorem crank_remaining_accounts_witness:
  "(\<exists>txs msg ix.
      crankMarketTransactions example_env
        (example_rpc (Some \<lparr>nodes = replicate 12 (fill_node 1) @ replicate 13 (out_node 1)\<rparr>))
        example_wallet (Some example_openbook) (Some example_provider) example_market ''heap'' None
        = Inr (Some txs) \<and>
      txs = [VersionedTransaction msg] \<and> instructions msg = [ix] \<and>
      ix_method ix = consumeEvents 21 \<and>
      length (ix_remainingAccounts ix) = 21 \<and>
      map (\<lambda>m. toString (pubkey m)) (ix_remainingAccounts ix) =
        replicate 12 ''alice'' @ replicate 9 ''carol'') \<and>
   (\<exists>txs msg ix.
      crankMarketTransactions example_env
        (example_rpc (Some \<lparr>nodes = [fill_node 1, out_node 1, fill_node 1]\<rparr>))
        example_wallet (Some example_openbook) (Some example_provider) example_market ''heap''
        (Some \<lparr>ref = 7, key = ''alice''\<rparr>)
        = Inr (Some txs) \<and>
      txs = [VersionedTransaction msg] \<and> instructions msg = [ix] \<and>
      ix_method ix = consumeEvents (int (length (ix_remainingAccounts ix))) \<and>
      map (\<lambda>m. toString (pubkey m)) (ix_remainingAccounts ix) = [''alice'', ''alice''])"
proof -
  define h where "h = Some \<lparr>nodes = replicate 12 (fill_node 1) @ replicate 13 (out_node 1)\<rparr>"
  define h' where "h' = Some \<lparr>nodes = [fill_node 1, out_node 1, fill_node 1]\<rparr>"
  define ie where "ie = \<lparr>ref = 7, key = ''alice''\<rparr>"
  define run where "run heap = crankMarketTransactions example_env (example_rpc heap)
        example_wallet (Some example_openbook) (Some example_provider) example_market ''heap''"
    for heap
  have g: "wallet_publicKey example_wallet = Some ''walletKey''"
    by (simp add: example_wallet_def)
  have f: "fetch_eventHeap (example_rpc heap) ''heap'' = Inr heap"
    and b: "getLatestBlockhash (example_rpc heap) = Inr ''blockhash''" for heap
    by (simp_all add: example_rpc_def)
  note total = crankMarketTransactions_total [where E = example_env and openbook = "Some example_openbook"
      and provider = "Some example_provider" and market = example_market, OF g refl refl]
  from total [OF f [of h] b [of h], of None, folded run_def]
  obtain txs where r1: "run h None = Inr (Some txs)" ..
  from total [OF f [of h'] b [of h'], of "Some ie", folded run_def]
  obtain txs' where r2: "run h' (Some ie) = Inr (Some txs')" ..
  have keys:
    "node_key example_env (fill_node 1) = ''alice''"
    "node_key example_env (out_node 1) = ''carol''"
    by (simp_all add: node_key_def fill_node_def out_node_def example_env_def)
  have names1: "map (node_key example_env) (take 21 (heap_nodes h)) =
      replicate 12 ''alice'' @ replicate 9 ''carol''"
    by (simp add: h_def heap_nodes_def keys)
  have names2: "filter (\<lambda>k. k = toString ie) (map (node_key example_env) (heap_nodes h')) =
      [''alice'', ''alice'']"
    by (simp add: h'_def ie_def heap_nodes_def keys toString_def)
  from crank_remaining_accounts [OF r1 [unfolded run_def]] obtain msg ix heap where
    a: "txs = [VersionedTransaction msg]" "instructions msg = [ix]"
       "fetch_eventHeap (example_rpc h) ''heap'' = Inr heap"
       "ix_method ix = consumeEvents (int (length (ix_remainingAccounts ix)))"
       "map (\<lambda>m. toString (pubkey m)) (ix_remainingAccounts ix) =
          map (node_key example_env) (take 21 (heap_nodes heap))"
    by blast
  from a(3) f have "heap = h" by simp
  with a(5) names1 have n1: "map (\<lambda>m. toString (pubkey m)) (ix_remainingAccounts ix) =
      replicate 12 ''alice'' @ replicate 9 ''carol''"
    by simp
  from arg_cong [OF n1, of length] have l1: "length (ix_remainingAccounts ix) = 21"
    by simp
  from a(4) l1 have m1: "ix_method ix = consumeEvents 21" by simp
  from crank_remaining_accounts [OF r2 [unfolded run_def]] obtain msg' ix' heap' where
    c: "txs' = [VersionedTransaction msg']" "instructions msg' = [ix']"
       "fetch_eventHeap (example_rpc h') ''heap'' = Inr heap'"
       "ix_method ix' = consumeEvents (int (length (ix_remainingAccounts ix')))"
       "map (\<lambda>m. toString (pubkey m)) (ix_remainingAccounts ix') =
          filter (\<lambda>k. k = toString ie) (map (node_key example_env) (heap_nodes heap'))"
    by blast
  from c(3) f have "heap' = h'" by simp
  with c(5) names2 have n2:
    "map (\<lambda>m. toString (pubkey m)) (ix_remainingAccounts ix') = [''alice'', ''alice'']"
    by simp
  have first: "\<exists>txs msg ix. run h None = Inr (Some txs) \<and>
      txs = [VersionedTransaction msg] \<and> instructions msg = [ix] \<and>
      ix_method ix = consumeEvents 21 \<and>
      length (ix_remainingAccounts ix) = 21 \<and>
      map (\<lambda>m. toString (pubkey m)) (ix_remainingAccounts ix) =
        replicate 12 ''alice'' @ replicate 9 ''carol''"
  proof (intro exI conjI)
    show "run h None = Inr (Some txs)" by (rule r1)
    show "txs = [VersionedTransaction msg]" by (rule a(1))
    show "instructions msg = [ix]" by (rule a(2))
    show "ix_method ix = consumeEvents 21" by (rule m1)
    show "length (ix_remainingAccounts ix) = 21" by (rule l1)
    show "map (\<lambda>m. toString (pubkey m)) (ix_remainingAccounts ix) =
        replicate 12 ''alice'' @ replicate 9 ''carol''" by (rule n1)
  qed
  have second: "\<exists>txs msg ix. run h' (Some ie) = Inr (Some txs) \<and>
      txs = [VersionedTransaction msg] \<and> instructions msg = [ix] \<and>
      ix_method ix = consumeEvents (int (length (ix_remainingAccounts ix))) \<and>
      map (\<lambda>m. toString (pubkey m)) (ix_remainingAccounts ix) = [''alice'', ''alice'']"
  proof (intro exI conjI)
    show "run h' (Some ie) = Inr (Some txs')" by (rule r2)
    show "txs' = [VersionedTransaction msg']" by (rule c(1))
    show "instructions msg' = [ix']" by (rule c(2))
    show "ix_method ix' = consumeEvents (int (length (ix_remainingAccounts ix')))" by (rule c(4))
    show "map (\<lambda>m. toString (pubkey m)) (ix_remainingAccounts ix') = [''alice'', ''alice'']"
      by (rule n2)
  qed
  from first second show ?thesis
    unfolding run_def h_def h'_def ie_def by (rule conjI)
qed

text \<open>
  Claim C6: each maker or owner key decoded from the event heap appears at most once
  in the remaining accounts given to \<^verbatim>\<open>consumeEvents\<close>. The run below is the
  code on a heap of two fill events with the same maker: the filter compares object
  references, the second maker is a new object, and both entries stay in the list.
\<close>

theorem crank_keeps_duplicate_maker:
  "crankMarketTransactions example_env
     (example_rpc (Some \<lparr>nodes = [fill_node 1, fill_node 1]\<rparr>))
     example_wallet (Some example_openbook) (Some example_provider) example_market ''heap'' None
   = Inr (Some [VersionedTransaction
        \<lparr>payerKey = ''walletKey'',
         instructions =
           [\<lparr>ix_program = \<lparr>idl = OPENBOOK_IDL, programId = ''openbookProgram''\<rparr>,
             ix_method = consumeEvents 2,
             ix_accounts = [(''consumeEventsAdmin'', Some ''openbookProgram''),
                            (''market'', Some ''market''), (''eventHeap'', Some ''heap'')],
             ix_remainingAccounts =
               [\<lparr>pubkey = \<lparr>ref = 0, key = ''alice''\<rparr>, isSigner = False, isWritable = True\<rparr>,
                \<lparr>pubkey = \<lparr>ref = 1, key = ''alice''\<rparr>, isSigner = False, isWritable = True\<rparr>]\<rparr>],
         recentBlockhash = ''blockhash''\<rparr>])"
  by (simp add: crankMarketTransactions_def crank_filteredAccounts_def crank_accounts_def
      visit_node_def example_defs)

section \<open>The guards\<close>

lemma placeOrder_guard:
  "wallet_publicKey wallet = None \<or> openbook = None \<or> openbookTwap E provider = None \<Longrightarrow>
   placeOrderTransactions E R wallet openbook provider amount price market limitOrder ask pass indexOffset = Inr None"
  by (auto simp: placeOrderTransactions_def split: option.splits)

lemma crank_guard:
  "wallet_publicKey wallet = None \<or> openbook = None \<or> openbookTwap E provider = None \<Longrightarrow>
   crankMarketTransactions E R wallet openbook provider market heap_key individualEvent = Inr None"
  by (auto simp: crankMarketTransactions_def split: option.splits)

lemma cancel_guard:
  "wallet_publicKey wallet = None \<or> openbook = None \<or> openbookTwap E provider = None \<Longrightarrow>
   cancelOrderTransactions E wallet openbook provider orderId market = Inr None"
  by (auto simp: cancelOrderTransactions_def split: option.splits)

lemma settle_guard:
  "wallet_publicKey wallet = None \<or> openbook = None \<Longrightarrow>
   settleFundsTransactions E R wallet openbook orderId passMarket proposal market = Inr None"
  by (auto simp: settleFundsTransactions_def split: option.splits)

lemma close_guard:
  "wallet_publicKey wallet = None \<or> openbook = None \<Longrightarrow>
   closeOpenOrdersAccountTransactions E wallet openbook orderId = Inr None"
  by (auto simp: closeOpenOrdersAccountTransactions_def split: option.splits)

text \<open>
  Claim C10: every builder returns undefined, with nothing built, when its
  precondition fails: \<^verbatim>\<open>placeOrderTransactions\<close>, \<^verbatim>\<open>crankMarketTransactions\<close> and
  \<^verbatim>\<open>cancelOrderTransactions\<close> when the wallet public key, the order-book program
  or the TWAP program is absent; \<^verbatim>\<open>settleFundsTransactions\<close> and
  \<^verbatim>\<open>closeOpenOrdersAccountTransactions\<close> when the wallet public key or the
  order-book program is absent.
\<close>

theorem guards_return_undefined:
  "(wallet_publicKey wallet = None \<or> openbook = None \<or> openbookTwap E provider = None \<longrightarrow>
      placeOrderTransactions E R wallet openbook provider amount price market limitOrder ask pass indexOffset = Inr None \<and>
      crankMarketTransactions E R wallet openbook provider market heap_key individualEvent = Inr None \<and>
      cancelOrderTransactions E wallet openbook provider orderId market = Inr None) \<and>
   (wallet_publicKey wallet = None \<or> openbook = None \<longrightarrow>
      settleFundsTransactions E R wallet openbook orderId passMarket proposal market = Inr None \<and>
      closeOpenOrdersAccountTransactions E wallet openbook orderId = Inr None)"
proof (intro conjI impI)
  assume g: "wallet_publicKey wallet = None \<or> openbook = None \<or> openbookTwap E provider = None"
  from g show "placeOrderTransactions E R wallet openbook provider amount price market limitOrder ask pass indexOffset = Inr None"
    by (rule placeOrder_guard)
  from g show "crankMarketTransactions E R wallet openbook provider market heap_key individualEvent = Inr None"
    by (rule crank_guard)
  from g show "cancelOrderTransactions E wallet openbook provider orderId market = Inr None"
    by (rule cancel_guard)
next
  assume g: "wallet_publicKey wallet = None \<or> openbook = None"
  from g show "settleFundsTransactions E R wallet openbook orderId passMarket proposal market = Inr None"
    by (rule settle_guard)
  from g show "closeOpenOrdersAccountTransactions E wallet openbook orderId = Inr None"
    by (rule close_guard)
qed

text \<open>The TWAP program is absent exactly when there is no provider.\<close>

lemma openbookTwap_None: "openbookTwap E provider = None \<longleftrightarrow> provider = None"
  by (simp add: openbookTwap_def split: option.splits)

theorem guards_return_undefined_witness:
  "placeOrderTransactions example_env (example_rpc None) \<lparr>wallet_publicKey = None\<rparr>
     (Some example_openbook) (Some example_provider) 1 (1 / 2) example_market (Some True) (Some True) None None
     = Inr None \<and>
   crankMarketTransactions example_env (example_rpc None) example_wallet None
     (Some example_provider) example_market ''heap'' None = Inr None \<and>
   cancelOrderTransactions example_env example_wallet (Some example_openbook) None 3 example_market
     = Inr None \<and>
   settleFundsTransactions example_env (example_rpc None) \<lparr>wallet_publicKey = None\<rparr>
     (Some example_openbook) 3 True
     \<lparr>proposal_publicKey = ''proposal'',
      proposal_account = \<lparr>number = 0, descriptionUrl = ''https://example.org/0'', proposer = ''proposer'',
                          baseVault = ''vaultB'', quoteVault = ''vaultQ''\<rparr>\<rparr>
     example_market = Inr None \<and>
   closeOpenOrdersAccountTransactions example_env example_wallet None 3 = Inr None"
proof -
  have a: "wallet_publicKey \<lparr>wallet_publicKey = None\<rparr> = None \<or> Some example_openbook = None \<or>
           openbookTwap example_env (Some example_provider) = None"
    by simp
  have b: "wallet_publicKey example_wallet = None \<or> (None :: openbook_client option) = None \<or>
           openbookTwap example_env (Some example_provider) = None"
    by simp
  have c: "wallet_publicKey example_wallet = None \<or> Some example_openbook = None \<or>
           openbookTwap example_env None = None"
    by (simp add: openbookTwap_def)
  have d: "wallet_publicKey \<lparr>wallet_publicKey = None\<rparr> = None \<or> Some example_openbook = None"
    by simp
  have e: "wallet_publicKey example_wallet = None \<or> (None :: openbook_client option) = None"
    by simp
  note g = guards_return_undefined [where E = example_env]
  from g [THEN conjunct1, THEN mp, OF a, THEN conjunct1]
       g [THEN conjunct1, THEN mp, OF b, THEN conjunct2, THEN conjunct1]
       g [THEN conjunct1, THEN mp, OF c, THEN conjunct2, THEN conjunct2]
       g [THEN conjunct2, THEN mp, OF d, THEN conjunct1]
       g [THEN conjunct2, THEN mp, OF e, THEN conjunct2]
  show ?thesis by (intro conjI)
qed

section \<open>Properties of placeOrderTransactions\<close>

lemma openbookTwap_Some:
  "openbookTwap E (Some pv) = Some \<lparr>idl = OPENBOOK_TWAP_IDL, programId = OPENBOOK_TWAP_PROGRAM_ID E\<rparr>"
  by (simp add: openbookTwap_def)

text \<open>The builder after its guard.\<close>

lemma placeOrderTransactions_guarded:
  assumes "wallet_publicKey wallet = Some pk" "openbook = Some ob" "provider = Some pv"
  shows "placeOrderTransactions E R wallet openbook provider amount price market limitOrder ask pass indexOffset =
     (case open_orders_index E R ob (findOpenOrdersIndexer E pk) pk indexOffset of
        Inl e \<Rightarrow> Inl e
      | Inr (opened, idx) \<Rightarrow>
     (case createOpenOrdersInstruction E (program ob) (publicKey market) idx
             (shortKey E pk @ ''-'' @ BN_toString idx) pk (findOpenOrdersIndexer E pk) of
        Inl e \<Rightarrow> Inl e
      | Inr (ixs, ooa) \<Rightarrow>
     (case place_order_args E amount price limitOrder ask idx of
        Inl e \<Rightarrow> Inl e
      | Inr args \<Rightarrow>
          if placeOrder_encodes E args
          then Inr (Some [Transaction (opened @ ixs @ [placeOrder_instruction E pk ob market ask ooa args])])
          else Inl EncodeError)))"
  by (simp add: placeOrderTransactions_def assms openbookTwap_Some placeOrder_instruction_def Let_def
      split: sum.splits prod.splits)

text \<open>What a returned list comes from.\<close>

lemma placeOrderTransactions_Some:
  assumes "wallet_publicKey wallet = Some pk" "openbook = Some ob" "provider = Some pv"
    and run: "placeOrderTransactions E R wallet openbook provider amount price market limitOrder ask pass indexOffset
                = Inr (Some txs)"
  obtains opened idx ixs ooa args where
    "open_orders_index E R ob (findOpenOrdersIndexer E pk) pk indexOffset = Inr (opened, idx)"
    "createOpenOrdersInstruction E (program ob) (publicKey market) idx
       (shortKey E pk @ ''-'' @ BN_toString idx) pk (findOpenOrdersIndexer E pk) = Inr (ixs, ooa)"
    "place_order_args E amount price limitOrder ask idx = Inr args"
    "placeOrder_encodes E args"
    "txs = [Transaction (opened @ ixs @ [placeOrder_instruction E pk ob market ask ooa args])]"
  using run unfolding placeOrderTransactions_guarded [OF assms(1-3)]
  by (auto split: sum.splits prod.splits if_splits)

text \<open>\<^verbatim>\<open>placeOrderTransactions\<close> returns, when the guard passes, exactly when the catch
  block, the builder of the open-orders account, the conversions to big numbers and
  the coder of \<^verbatim>\<open>placeOrder\<close> all succeed.\<close>

lemma placeOrderTransactions_total:
  assumes "wallet_publicKey wallet = Some pk" "openbook = Some ob" "provider = Some pv"
  shows "(\<exists>txs. placeOrderTransactions E R wallet openbook provider amount price market limitOrder ask pass indexOffset
                  = Inr (Some txs)) \<longleftrightarrow>
         (\<exists>opened idx ixs ooa args.
            open_orders_index E R ob (findOpenOrdersIndexer E pk) pk indexOffset = Inr (opened, idx) \<and>
            createOpenOrdersInstruction E (program ob) (publicKey market) idx
              (shortKey E pk @ ''-'' @ BN_toString idx) pk (findOpenOrdersIndexer E pk) = Inr (ixs, ooa) \<and>
            place_order_args E amount price limitOrder ask idx = Inr args \<and>
            placeOrder_encodes E args)"
  unfolding placeOrderTransactions_guarded [OF assms]
  by (auto split: sum.splits prod.splits if_splits)

lemma place_order_args_total:
  "(\<exists>args. place_order_args E amount price limitOrder ask idx = Inr args) \<longleftrightarrow>
     new_BN E (Math_floor E (js_div E price (QUOTE_LOTS E))) \<noteq> None \<and>
     new_BN E (Math_floor E amount) \<noteq> None \<and>
     (\<not> truthy limitOrder \<and> truthy ask \<longrightarrow>
        new_BN E (Math_floor E (js_div E (js_number E 10) (QUOTE_LOTS E))) \<noteq> None)"
  by (auto simp: place_order_args_def split: option.splits)

lemma place_order_args_Inr:
  assumes "place_order_args E amount price limitOrder ask idx = Inr args"
  shows "Some (maxBaseLots args) = new_BN E (Math_floor E amount)"
    and "truthy limitOrder \<Longrightarrow>
           Some (priceLots args) = new_BN E (Math_floor E (js_div E price (QUOTE_LOTS E))) \<and>
           maxQuoteLotsIncludingFees args = priceLots args * maxBaseLots args"
    and "\<not> truthy limitOrder \<Longrightarrow> truthy ask \<Longrightarrow>
           priceLots args = 1 \<and>
           Some (maxQuoteLotsIncludingFees args) =
             new_BN E (Math_floor E (js_div E (js_number E 10) (QUOTE_LOTS E)))"
    and "\<not> truthy limitOrder \<Longrightarrow> \<not> truthy ask \<Longrightarrow>
           priceLots args = 1000000000000000 \<and>
           maxQuoteLotsIncludingFees args = priceLots args * maxBaseLots args"
    and "clientOrderId args = idx" and "expiryTimestamp args = 0" and "limit args = 255"
    and "side args = (if truthy ask then Ask else Bid)"
    and "orderType args = (if truthy limitOrder then Limit else Market)"
  using assms
  by (auto simp: place_order_args_def split: option.splits if_splits sum.splits)

text \<open>The account index when the indexer is fetched and the sum is below \<open>2^53\<close>.\<close>

lemma open_orders_index_fetched:
  assumes "fetch_openOrdersIndexer R indexer = Inr found"
    and "\<bar>(case found of None \<Rightarrow> 0 | Some i \<Rightarrow> int (createdCounter i)) + 1 + or_zero indexOffset\<bar>
           < 9007199254740992"
  shows "open_orders_index E R ob indexer pk indexOffset =
           Inr ([], (case found of None \<Rightarrow> 0 | Some i \<Rightarrow> int (createdCounter i)) + 1 + or_zero indexOffset)"
  using assms by (simp add: open_orders_index_def new_BN_integer_def)

text \<open>
  Claim C1: when the guard passes, a returned list holds exactly one transaction,
  whose last instruction is \<^verbatim>\<open>placeOrder\<close> on the TWAP program; its
  \<^verbatim>\<open>marketVault\<close> is the market's base vault when \<^verbatim>\<open>ask\<close> is true and its
  quote vault otherwise; its \<^verbatim>\<open>userTokenAccount\<close> is the caller's associated
  token address for the base mint when \<^verbatim>\<open>ask\<close> is true and for the quote mint
  otherwise; its \<^verbatim>\<open>twapMarket\<close> is the address derived from the seeds
  \<^verbatim>\<open>'twap_market'\<close> and the market's key under the TWAP program id.
\<close>

theorem placeOrder_accounts:
  assumes "wallet_publicKey wallet = Some pk" "openbook = Some ob" "provider = Some pv"
    and run: "placeOrderTransactions E R wallet openbook provider amount price market limitOrder ask pass indexOffset
                = Inr (Some txs)"
  shows "\<exists>pre ix args.
           txs = [Transaction (pre @ [ix])] \<and>
           ix_program ix = \<lparr>idl = OPENBOOK_TWAP_IDL, programId = OPENBOOK_TWAP_PROGRAM_ID E\<rparr> \<and>
           ix_method ix = placeOrder args \<and>
           map_of (ix_accounts ix) ''marketVault'' =
             Some (Some (if truthy ask then marketBaseVault (account market)
                         else marketQuoteVault (account market))) \<and>
           map_of (ix_accounts ix) ''userTokenAccount'' =
             Some (Some (getAssociatedTokenAddressSync E
                           (if truthy ask then baseMint (account market)
                            else quoteMint (account market)) pk)) \<and>
           map_of (ix_accounts ix) ''twapMarket'' =
             Some (Some (findProgramAddressSync E
                           [Buffer_from ''twap_market'', toBuffer (publicKey market)]
                           (OPENBOOK_TWAP_PROGRAM_ID E)))"
proof -
  from assms obtain opened idx ixs ooa args where
    "open_orders_index E R ob (findOpenOrdersIndexer E pk) pk indexOffset = Inr (opened, idx)" and
    "createOpenOrdersInstruction E (program ob) (publicKey market) idx
       (shortKey E pk @ ''-'' @ BN_toString idx) pk (findOpenOrdersIndexer E pk) = Inr (ixs, ooa)" and
    "place_order_args E amount price limitOrder ask idx = Inr args" and
    "placeOrder_encodes E args" and
    t: "txs = [Transaction (opened @ ixs @ [placeOrder_instruction E pk ob market ask ooa args])]"
    by (rule placeOrderTransactions_Some)
  show ?thesis
    by (rule exI [of _ "opened @ ixs"],
        rule exI [of _ "placeOrder_instruction E pk ob market ask ooa args"],
        rule exI [of _ args])
       (simp add: t placeOrder_instruction_def)
qed

text \<open>
  Claim C2: the \<^verbatim>\<open>placeOrder\<close> arguments map the inputs directly. Limit order:
  \<^verbatim>\<open>priceLots = floor(price / QUOTE_LOTS)\<close>, \<^verbatim>\<open>maxBaseLots = floor(amount)\<close>,
  \<^verbatim>\<open>maxQuoteLotsIncludingFees = priceLots * maxBaseLots\<close>. Market ask:
  \<^verbatim>\<open>priceLots = 1\<close>, \<^verbatim>\<open>maxQuoteLotsIncludingFees = floor(10 / QUOTE_LOTS)\<close>.
  Market bid: \<^verbatim>\<open>priceLots = 1000000000000000\<close> and
  \<^verbatim>\<open>maxQuoteLotsIncludingFees = priceLots * maxBaseLots\<close>. Always
  \<^verbatim>\<open>clientOrderId\<close> is the computed account index (the one the open-orders
  account is created with), \<^verbatim>\<open>expiryTimestamp\<close> is 0 and \<^verbatim>\<open>limit\<close> is 255.
\<close>

theorem placeOrder_arguments:
  assumes "wallet_publicKey wallet = Some pk" "openbook = Some ob" "provider = Some pv"
    and run: "placeOrderTransactions E R wallet openbook provider amount price market limitOrder ask pass indexOffset
                = Inr (Some txs)"
  shows "\<exists>pre ix args.
           txs = [Transaction (pre @ [ix])] \<and> ix_method ix = placeOrder args \<and>
           Some (maxBaseLots args) = new_BN E (Math_floor E amount) \<and>
           (truthy limitOrder \<longrightarrow>
              Some (priceLots args) = new_BN E (Math_floor E (js_div E price (QUOTE_LOTS E))) \<and>
              maxQuoteLotsIncludingFees args = priceLots args * maxBaseLots args) \<and>
           (\<not> truthy limitOrder \<and> truthy ask \<longrightarrow>
              priceLots args = 1 \<and>
              Some (maxQuoteLotsIncludingFees args) =
                new_BN E (Math_floor E (js_div E (js_number E 10) (QUOTE_LOTS E)))) \<and>
           (\<not> truthy limitOrder \<and> \<not> truthy ask \<longrightarrow>
              priceLots args = 1000000000000000 \<and>
              maxQuoteLotsIncludingFees args = priceLots args * maxBaseLots args) \<and>
           (\<exists>opened ixs ooa.
              open_orders_index E R ob (findOpenOrdersIndexer E pk) pk indexOffset
                = Inr (opened, clientOrderId args) \<and>
              createOpenOrdersInstruction E (program ob) (publicKey market) (clientOrderId args)
                (shortKey E pk @ ''-'' @ BN_toString (clientOrderId args))
                pk (findOpenOrdersIndexer E pk) = Inr (ixs, ooa) \<and>
              pre = opened @ ixs \<and>
              map_of (ix_accounts ix) ''openOrdersAccount'' = Some (Some ooa)) \<and>
           expiryTimestamp args = 0 \<and> limit args = 255"
proof -
  from assms obtain opened idx ixs ooa args where
    o: "open_orders_index E R ob (findOpenOrdersIndexer E pk) pk indexOffset = Inr (opened, idx)" and
    c: "createOpenOrdersInstruction E (program ob) (publicKey market) idx
          (shortKey E pk @ ''-'' @ BN_toString idx) pk (findOpenOrdersIndexer E pk) = Inr (ixs, ooa)" and
    a: "place_order_args E amount price limitOrder ask idx = Inr args" and
    "placeOrder_encodes E args" and
    t: "txs = [Transaction (opened @ ixs @ [placeOrder_instruction E pk ob market ask ooa args])]"
    by (rule placeOrderTransactions_Some)
  note p = place_order_args_Inr [OF a]
  define ix where "ix = placeOrder_instruction E pk ob market ask ooa args"
  have m: "ix_method ix = placeOrder args"
    and oo: "map_of (ix_accounts ix) ''openOrdersAccount'' = Some (Some ooa)"
    by (simp_all add: ix_def placeOrder_instruction_def)
  have t': "txs = [Transaction ((opened @ ixs) @ [ix])]"
    by (simp add: t ix_def)
  show ?thesis
  proof (rule exI [of _ "opened @ ixs"], rule exI [of _ ix], rule exI [of _ args], intro conjI impI)
    show "txs = [Transaction ((opened @ ixs) @ [ix])]" by (rule t')
    show "ix_method ix = placeOrder args" by (rule m)
    show "Some (maxBaseLots args) = new_BN E (Math_floor E amount)" by (rule p(1))
    show "Some (priceLots args) = new_BN E (Math_floor E (js_div E price (QUOTE_LOTS E)))"
      if "truthy limitOrder" using p(2) that by simp
    show "maxQuoteLotsIncludingFees args = priceLots args * maxBaseLots args"
      if "truthy limitOrder" using p(2) that by simp
    show "priceLots args = 1" if "\<not> truthy limitOrder \<and> truthy ask"
      using p(3) that by simp
    show "Some (maxQuoteLotsIncludingFees args) =
            new_BN E (Math_floor E (js_div E (js_number E 10) (QUOTE_LOTS E)))"
      if "\<not> truthy limitOrder \<and> truthy ask"
      using p(3) that by simp
    show "priceLots args = 1000000000000000" if "\<not> truthy limitOrder \<and> \<not> truthy ask"
      using p(4) that by simp
    show "maxQuoteLotsIncludingFees args = priceLots args * maxBaseLots args"
      if "\<not> truthy limitOrder \<and> \<not> truthy ask"
      using p(4) that by simp
    show "\<exists>opened' ixs' ooa.
      open_orders_index E R ob (findOpenOrdersIndexer E pk) pk indexOffset
        = Inr (opened', clientOrderId args) \<and>
      createOpenOrdersInstruction E (program ob) (publicKey market) (clientOrderId args)
        (shortKey E pk @ ''-'' @ BN_toString (clientOrderId args))
        pk (findOpenOrdersIndexer E pk) = Inr (ixs', ooa) \<and>
      opened @ ixs = opened' @ ixs' \<and>
      map_of (ix_accounts ix) ''openOrdersAccount'' = Some (Some ooa)"
      using o c oo
      by (intro exI [of _ opened] exI [of _ ixs] exI [of _ ooa]) (simp add: p(5))
    show "expiryTimestamp args = 0" by (rule p(6))
    show "limit args = 255" by (rule p(7))
  qed
qed

lemmas example_place_defs =
  place_order_args_def open_orders_index_def truthy_def truthy_number_def or_zero_def
  new_BN_integer_def

text \<open>The theorem at a limit order of the example wallet, once as an ask and once
  with \<^verbatim>\<open>ask\<close> left out.\<close>

theorem placeOrder_accounts_witness:
  "(\<exists>pre ix.
      placeOrderTransactions example_env (example_rpc None) example_wallet (Some example_openbook)
        (Some example_provider) (7 / 2) (1 / 2) example_market (Some True) (Some True) None None
        = Inr (Some [Transaction (pre @ [ix])]) \<and>
      ix_program ix = \<lparr>idl = OPENBOOK_TWAP_IDL, programId = ''twapProgram''\<rparr> \<and>
      map_of (ix_accounts ix) ''marketVault'' = Some (Some ''baseVault'') \<and>
      map_of (ix_accounts ix) ''userTokenAccount'' = Some (Some ''ata/baseMint/walletKey'') \<and>
      map_of (ix_accounts ix) ''twapMarket'' = Some (Some ''pda/twap_marketmarket/twapProgram'')) \<and>
   (\<exists>pre ix.
      placeOrderTransactions example_env (example_rpc None) example_wallet (Some example_openbook)
        (Some example_provider) (7 / 2) (1 / 2) example_market (Some True) None None None
        = Inr (Some [Transaction (pre @ [ix])]) \<and>
      ix_program ix = \<lparr>idl = OPENBOOK_TWAP_IDL, programId = ''twapProgram''\<rparr> \<and>
      map_of (ix_accounts ix) ''marketVault'' = Some (Some ''quoteVault'') \<and>
      map_of (ix_accounts ix) ''userTokenAccount'' = Some (Some ''ata/quoteMint/walletKey'') \<and>
      map_of (ix_accounts ix) ''twapMarket'' = Some (Some ''pda/twap_marketmarket/twapProgram''))"
proof -
  define run where "run = placeOrderTransactions example_env (example_rpc None) example_wallet
    (Some example_openbook) (Some example_provider) (7 / 2) (1 / 2) example_market (Some True)"
  have g: "wallet_publicKey example_wallet = Some ''walletKey''"
    by (simp add: example_wallet_def)
  have fl: "\<lfloor>7 / 2 :: rat\<rfloor> = 3"
    by (rule floor_unique) simp_all
  have ret: "\<exists>txs. run ask None None = Inr (Some txs)" for ask
    by (simp add: run_def placeOrderTransactions_def example_place_defs example_defs Let_def fl
        split: option.splits)
  have ev:
    "OPENBOOK_TWAP_PROGRAM_ID example_env = ''twapProgram''"
    "marketBaseVault (account example_market) = ''baseVault''"
    "marketQuoteVault (account example_market) = ''quoteVault''"
    "getAssociatedTokenAddressSync example_env (baseMint (account example_market)) ''walletKey''
       = ''ata/baseMint/walletKey''"
    "getAssociatedTokenAddressSync example_env (quoteMint (account example_market)) ''walletKey''
       = ''ata/quoteMint/walletKey''"
    "findProgramAddressSync example_env
       [Buffer_from ''twap_market'', toBuffer (publicKey example_market)] ''twapProgram''
       = ''pda/twap_marketmarket/twapProgram''"
    "truthy (Some True) = True" "truthy None = False"
    by (simp_all add: example_env_def example_market_def seed_text_def truthy_def)
  note th = placeOrder_accounts [where wallet = example_wallet and openbook = "Some example_openbook"
      and provider = "Some example_provider" and ob = example_openbook and pv = example_provider
      and E = example_env and R = "example_rpc None"
      and amount = "7 / 2" and price = "1 / 2" and limitOrder = "Some True" and indexOffset = None
      and market = example_market and pass = None, OF g refl refl, folded run_def]
  from ret obtain t1 where t1: "run (Some True) None None = Inr (Some t1)" by blast
  from ret obtain t2 where t2: "run None None None = Inr (Some t2)" by blast
  from th [OF t1] obtain pre1 ix1 where
    r1: "t1 = [Transaction (pre1 @ [ix1])]"
        "ix_program ix1 = \<lparr>idl = OPENBOOK_TWAP_IDL, programId = ''twapProgram''\<rparr>"
        "map_of (ix_accounts ix1) ''marketVault'' = Some (Some ''baseVault'')"
        "map_of (ix_accounts ix1) ''userTokenAccount'' = Some (Some ''ata/baseMint/walletKey'')"
        "map_of (ix_accounts ix1) ''twapMarket'' = Some (Some ''pda/twap_marketmarket/twapProgram'')"
    unfolding ev if_True if_False by (elim exE conjE) (rule that, assumption+)
  from th [OF t2] obtain pre2 ix2 where
    r2: "t2 = [Transaction (pre2 @ [ix2])]"
        "ix_program ix2 = \<lparr>idl = OPENBOOK_TWAP_IDL, programId = ''twapProgram''\<rparr>"
        "map_of (ix_accounts ix2) ''marketVault'' = Some (Some ''quoteVault'')"
        "map_of (ix_accounts ix2) ''userTokenAccount'' = Some (Some ''ata/quoteMint/walletKey'')"
        "map_of (ix_accounts ix2) ''twapMarket'' = Some (Some ''pda/twap_marketmarket/twapProgram'')"
    unfolding ev if_True if_False by (elim exE conjE) (rule that, assumption+)
  show ?thesis
    unfolding run_def [symmetric]
  proof (intro conjI exI)
    show "run (Some True) None None = Inr (Some [Transaction (pre1 @ [ix1])])"
      using t1 r1(1) by simp
    show "ix_program ix1 = \<lparr>idl = OPENBOOK_TWAP_IDL, programId = ''twapProgram''\<rparr>" by (rule r1(2))
    show "map_of (ix_accounts ix1) ''marketVault'' = Some (Some ''baseVault'')" by (rule r1(3))
    show "map_of (ix_accounts ix1) ''userTokenAccount'' = Some (Some ''ata/baseMint/walletKey'')"
      by (rule r1(4))
    show "map_of (ix_accounts ix1) ''twapMarket'' = Some (Some ''pda/twap_marketmarket/twapProgram'')"
      by (rule r1(5))
    show "run None None None = Inr (Some [Transaction (pre2 @ [ix2])])"
      using t2 r2(1) by simp
    show "ix_program ix2 = \<lparr>idl = OPENBOOK_TWAP_IDL, programId = ''twapProgram''\<rparr>" by (rule r2(2))
    show "map_of (ix_accounts ix2) ''marketVault'' = Some (Some ''quoteVault'')" by (rule r2(3))
    show "map_of (ix_accounts ix2) ''userTokenAccount'' = Some (Some ''ata/quoteMint/walletKey'')"
      by (rule r2(4))
    show "map_of (ix_accounts ix2) ''twapMarket'' = Some (Some ''pda/twap_marketmarket/twapProgram'')"
      by (rule r2(5))
  qed
qed

text \<open>The theorem at a limit ask, at a market ask and at a market bid, with amount
  3.5, price 0.5 and a fetched counter of 2.\<close>

theorem placeOrder_arguments_witness:
  "(\<exists>pre ix args.
      placeOrderTransactions example_env (example_rpc None) example_wallet (Some example_openbook)
        (Some example_provider) (7 / 2) (1 / 2) example_market (Some True) (Some True) None None
        = Inr (Some [Transaction (pre @ [ix])]) \<and>
      ix_method ix = placeOrder args \<and>
      priceLots args = 5000 \<and> maxBaseLots args = 3 \<and> maxQuoteLotsIncludingFees args = 15000 \<and>
      clientOrderId args = 3 \<and> expiryTimestamp args = 0 \<and> limit args = 255) \<and>
   (\<exists>pre ix args.
      placeOrderTransactions example_env (example_rpc None) example_wallet (Some example_openbook)
        (Some example_provider) (7 / 2) (1 / 2) example_market None (Some True) None None
        = Inr (Some [Transaction (pre @ [ix])]) \<and>
      ix_method ix = placeOrder args \<and>
      priceLots args = 1 \<and> maxBaseLots args = 3 \<and> maxQuoteLotsIncludingFees args = 100000 \<and>
      clientOrderId args = 3 \<and> expiryTimestamp args = 0 \<and> limit args = 255) \<and>
   (\<exists>pre ix args.
      placeOrderTransactions example_env (example_rpc None) example_wallet (Some example_openbook)
        (Some example_provider) (7 / 2) (1 / 2) example_market (Some False) (Some False) None None
        = Inr (Some [Transaction (pre @ [ix])]) \<and>
      ix_method ix = placeOrder args \<and>
      priceLots args = 1000000000000000 \<and> maxBaseLots args = 3 \<and>
      maxQuoteLotsIncludingFees args = 3000000000000000 \<and>
      clientOrderId args = 3 \<and> expiryTimestamp args = 0 \<and> limit args = 255)"
proof -
  define run where "run = placeOrderTransactions example_env (example_rpc None) example_wallet
    (Some example_openbook) (Some example_provider) (7 / 2) (1 / 2) example_market"
  have g: "wallet_publicKey example_wallet = Some ''walletKey''"
    by (simp add: example_wallet_def)
  have fl: "\<lfloor>7 / 2 :: rat\<rfloor> = 3"
    by (rule floor_unique) simp_all
  have ret: "\<exists>txs. run limitOrder ask None None = Inr (Some txs)" for limitOrder ask
    by (simp add: run_def placeOrderTransactions_def example_place_defs example_defs Let_def fl
        split: option.splits)
  have ev:
    "new_BN example_env (Math_floor example_env (7 / 2)) = Some 3"
    "new_BN example_env (Math_floor example_env (js_div example_env (1 / 2) (QUOTE_LOTS example_env)))
       = Some 5000"
    "new_BN example_env (Math_floor example_env
        (js_div example_env (js_number example_env 10) (QUOTE_LOTS example_env))) = Some 100000"
    "truthy (Some True) = True" "truthy None = False" "truthy (Some False) = False"
    by (simp_all add: example_env_def example_place_defs fl)
  have idx: "open_orders_index example_env (example_rpc None) example_openbook
        (findOpenOrdersIndexer example_env ''walletKey'') ''walletKey'' None = Inr (opened, i)
      \<Longrightarrow> i = 3" for opened i
    by (simp add: example_rpc_def example_place_defs)
  note th = placeOrder_arguments [where wallet = example_wallet and openbook = "Some example_openbook"
      and provider = "Some example_provider" and ob = example_openbook and pv = example_provider
      and E = example_env and R = "example_rpc None"
      and amount = "7 / 2" and price = "1 / 2" and indexOffset = None
      and market = example_market and pass = None, OF g refl refl, folded run_def]
  from ret obtain t1 where t1: "run (Some True) (Some True) None None = Inr (Some t1)" by blast
  from ret obtain t2 where t2: "run None (Some True) None None = Inr (Some t2)" by blast
  from ret obtain t3 where t3: "run (Some False) (Some False) None None = Inr (Some t3)" by blast
  from th [OF t1, unfolded ev] obtain pre1 ix1 args1 where
    r1: "t1 = [Transaction (pre1 @ [ix1])]" "ix_method ix1 = placeOrder args1"
        "Some (maxBaseLots args1) = Some 3"
        "Some (priceLots args1) = Some 5000"
        "maxQuoteLotsIncludingFees args1 = priceLots args1 * maxBaseLots args1"
        "clientOrderId args1 = 3" "expiryTimestamp args1 = 0" "limit args1 = 255"
    by (auto dest: idx)
  from th [OF t2, unfolded ev] obtain pre2 ix2 args2 where
    r2: "t2 = [Transaction (pre2 @ [ix2])]" "ix_method ix2 = placeOrder args2"
        "Some (maxBaseLots args2) = Some 3"
        "priceLots args2 = 1"
        "Some (maxQuoteLotsIncludingFees args2) = Some 100000"
        "clientOrderId args2 = 3" "expiryTimestamp args2 = 0" "limit args2 = 255"
    by (auto dest: idx)
  from th [OF t3, unfolded ev] obtain pre3 ix3 args3 where
    r3: "t3 = [Transaction (pre3 @ [ix3])]" "ix_method ix3 = placeOrder args3"
        "Some (maxBaseLots args3) = Some 3"
        "priceLots args3 = 1000000000000000"
        "maxQuoteLotsIncludingFees args3 = priceLots args3 * maxBaseLots args3"
        "clientOrderId args3 = 3" "expiryTimestamp args3 = 0" "limit args3 = 255"
    by (auto dest: idx)
  show ?thesis
    unfolding run_def [symmetric]
  proof (intro conjI)
    show "\<exists>pre ix args. run (Some True) (Some True) None None = Inr (Some [Transaction (pre @ [ix])]) \<and>
      ix_method ix = placeOrder args \<and>
      priceLots args = 5000 \<and> maxBaseLots args = 3 \<and> maxQuoteLotsIncludingFees args = 15000 \<and>
      clientOrderId args = 3 \<and> expiryTimestamp args = 0 \<and> limit args = 255"
      using t1 r1 by (intro exI [of _ pre1] exI [of _ ix1] exI [of _ args1]) simp
    show "\<exists>pre ix args. run None (Some True) None None = Inr (Some [Transaction (pre @ [ix])]) \<and>
      ix_method ix = placeOrder args \<and>
      priceLots args = 1 \<and> maxBaseLots args = 3 \<and> maxQuoteLotsIncludingFees args = 100000 \<and>
      clientOrderId args = 3 \<and> expiryTimestamp args = 0 \<and> limit args = 255"
      using t2 r2 by (intro exI [of _ pre2] exI [of _ ix2] exI [of _ args2]) simp
    show "\<exists>pre ix args. run (Some False) (Some False) None None = Inr (Some [Transaction (pre @ [ix])]) \<and>
      ix_method ix = placeOrder args \<and>
      priceLots args = 1000000000000000 \<and> maxBaseLots args = 3 \<and>
      maxQuoteLotsIncludingFees args = 3000000000000000 \<and>
      clientOrderId args = 3 \<and> expiryTimestamp args = 0 \<and> limit args = 255"
      using t3 r3 by (intro exI [of _ pre3] exI [of _ ix3] exI [of _ args3]) simp
  qed
qed

text \<open>A market bid of amount 20000 passes the guard and is rejected: its quote limit
  of \<open>2 * 10^19\<close> lots does not fit the 8 bytes of its field.\<close>

lemma market_bid_20000_rejected:
  "placeOrderTransactions example_env (example_rpc None) example_wallet (Some example_openbook)
     (Some example_provider) 20000 (1 / 2) example_market None None None None = Inl EncodeError"
  by (simp add: placeOrderTransactions_def example_place_defs example_defs Let_def)

section \<open>Properties of settling, closing and cancelling\<close>

lemma settleFundsTransactions_guarded:
  assumes "wallet_publicKey wallet = Some pk" "openbook = Some ob"
  shows "settleFundsTransactions E R wallet openbook orderId passMarket proposal market =
     (case getVaultMint R (quoteVault (proposal_account proposal)) of
        Inl e \<Rightarrow> Inl e
      | Inr qv \<Rightarrow>
     (case getVaultMint R (baseVault (proposal_account proposal)) of
        Inl e \<Rightarrow> Inl e
      | Inr bv \<Rightarrow>
          Inr (Some [Transaction
            [\<lparr>ix_program = program ob,
              ix_method = settleFunds,
              ix_accounts =
                [(''owner'', Some pk),
                 (''penaltyPayer'', Some pk),
                 (''openOrdersAccount'', Some (findOpenOrders E orderId pk)),
                 (''market'', Some (publicKey market)),
                 (''marketAuthority'', Some (marketAuthority (account market))),
                 (''marketBaseVault'', Some (marketBaseVault (account market))),
                 (''marketQuoteVault'', Some (marketQuoteVault (account market))),
                 (''userBaseAccount'',
                    Some (getAssociatedTokenAddressSync E
                            (if passMarket then conditionalOnFinalizeTokenMint bv
                             else conditionalOnRevertTokenMint bv) pk)),
                 (''userQuoteAccount'',
                    Some (getAssociatedTokenAddressSync E
                            (if passMarket then conditionalOnFinalizeTokenMint qv
                             else conditionalOnRevertTokenMint qv) pk)),
                 (''referrerAccount'', None),
                 (''tokenProgram'', Some (TOKEN_PROGRAM_ID E)),
                 (''systemProgram'', Some SYSTEM_PROGRAM)],
              ix_remainingAccounts = []\<rparr>]])))"
  by (simp add: settleFundsTransactions_def assms Let_def split: sum.splits)

text \<open>
  Claim C3: when the guard passes (and both vault mints are fetched), the
  \<^verbatim>\<open>settleFunds\<close> instruction's \<^verbatim>\<open>userBaseAccount\<close> and \<^verbatim>\<open>userQuoteAccount\<close>
  are the caller's associated token addresses for the base and quote vaults'
  conditional-on-finalize mints when \<^verbatim>\<open>passMarket\<close> is true and for the
  conditional-on-revert mints when it is false; \<^verbatim>\<open>owner\<close> and \<^verbatim>\<open>penaltyPayer\<close>
  are the wallet's public key and \<^verbatim>\<open>referrerAccount\<close> is null.
\<close>

theorem settleFunds_accounts:
  assumes "wallet_publicKey wallet = Some pk" "openbook = Some ob"
    and "getVaultMint R (quoteVault (proposal_account proposal)) = Inr qv"
    and "getVaultMint R (baseVault (proposal_account proposal)) = Inr bv"
  shows "\<exists>ix. settleFundsTransactions E R wallet openbook orderId passMarket proposal market
               = Inr (Some [Transaction [ix]]) \<and>
              ix_method ix = settleFunds \<and>
              map_of (ix_accounts ix) ''userBaseAccount'' =
                Some (Some (getAssociatedTokenAddressSync E
                              (if passMarket then conditionalOnFinalizeTokenMint bv
                               else conditionalOnRevertTokenMint bv) pk)) \<and>
              map_of (ix_accounts ix) ''userQuoteAccount'' =
                Some (Some (getAssociatedTokenAddressSync E
                              (if passMarket then conditionalOnFinalizeTokenMint qv
                               else conditionalOnRevertTokenMint qv) pk)) \<and>
              map_of (ix_accounts ix) ''owner'' = Some (Some pk) \<and>
              map_of (ix_accounts ix) ''penaltyPayer'' = Some (Some pk) \<and>
              map_of (ix_accounts ix) ''referrerAccount'' = Some None"
  unfolding settleFundsTransactions_guarded [OF assms(1,2)] assms(3,4) sum.case
  by (intro exI conjI, rule refl) simp_all

text \<open>When a vault cannot be fetched the call is rejected and nothing is returned.\<close>

lemma settleFunds_rejected:
  assumes "wallet_publicKey wallet = Some pk" "openbook = Some ob"
    and "getVaultMint R (quoteVault (proposal_account proposal)) = Inl e \<or>
         getVaultMint R (baseVault (proposal_account proposal)) = Inl e"
  shows "\<exists>e'. settleFundsTransactions E R wallet openbook orderId passMarket proposal market = Inl e'"
  using assms(3)
  by (auto simp: settleFundsTransactions_guarded [OF assms(1,2)] split: sum.splits)

lemma cancelOrderTransactions_guarded:
  assumes "wallet_publicKey wallet = Some pk" "openbook = Some ob" "provider = Some pv"
  shows "cancelOrderTransactions E wallet openbook provider orderId market =
     Inr (Some [Transaction
       [\<lparr>ix_program = \<lparr>idl = OPENBOOK_TWAP_IDL, programId = OPENBOOK_TWAP_PROGRAM_ID E\<rparr>,
         ix_method = cancelOrderByClientId orderId,
         ix_accounts =
           [(''openOrdersAccount'', Some (findOpenOrders E orderId pk)),
            (''asks'', Some (asks (account market))),
            (''bids'', Some (bids (account market))),
            (''market'', Some (publicKey market)),
            (''twapMarket'',
               Some (findProgramAddressSync E
                       [Buffer_from ''twap_market'', toBuffer (publicKey market)]
                       (OPENBOOK_TWAP_PROGRAM_ID E))),
            (''openbookProgram'', Some (client_programId ob))],
         ix_remainingAccounts = []\<rparr>]])"
  by (simp add: cancelOrderTransactions_def assms openbookTwap_Some Let_def)

lemma closeOpenOrdersAccountTransactions_guarded:
  assumes "wallet_publicKey wallet = Some pk" "openbook = Some ob"
  shows "closeOpenOrdersAccountTransactions E wallet openbook orderId =
     Inr (Some [Transaction
       [\<lparr>ix_program = program ob,
         ix_method = closeOpenOrdersAccount,
         ix_accounts =
           [(''owner'', Some pk),
            (''openOrdersIndexer'', Some (findOpenOrdersIndexer E pk)),
            (''openOrdersAccount'', Some (findOpenOrders E orderId pk)),
            (''solDestination'', Some pk)],
         ix_remainingAccounts = []\<rparr>]])"
  by (simp add: closeOpenOrdersAccountTransactions_def assms Let_def)

text \<open>
  Claim C8: two calls of \<^verbatim>\<open>cancelOrderTransactions\<close> with the same wallet public key,
  \<^verbatim>\<open>orderId\<close> and market return the same single transaction: the same
  \<^verbatim>\<open>cancelOrderByClientId\<close> argument, the same open-orders account derived from
  \<^verbatim>\<open>orderId\<close> and the wallet, the same \<^verbatim>\<open>asks\<close>, \<^verbatim>\<open>bids\<close>, \<^verbatim>\<open>market\<close>,
  \<^verbatim>\<open>twapMarket\<close> and \<^verbatim>\<open>openbookProgram\<close>. The two calls may differ in the provider
  and in the order-book client object, which stands for the same deployed program.
\<close>

theorem cancelOrder_determined:
  assumes "wallet_publicKey wallet = Some pk" "wallet_publicKey wallet' = Some pk"
    and "openbook = Some ob" "openbook' = Some ob'" "client_programId ob = client_programId ob'"
    and "provider = Some pv" "provider' = Some pv'"
  shows "cancelOrderTransactions E wallet openbook provider orderId market =
         cancelOrderTransactions E wallet' openbook' provider' orderId market \<and>
         (\<exists>ix. cancelOrderTransactions E wallet openbook provider orderId market
                 = Inr (Some [Transaction [ix]]) \<and>
               ix_method ix = cancelOrderByClientId orderId \<and>
               ix_accounts ix =
                 [(''openOrdersAccount'', Some (findOpenOrders E orderId pk)),
                  (''asks'', Some (asks (account market))),
                  (''bids'', Some (bids (account market))),
                  (''market'', Some (publicKey market)),
                  (''twapMarket'',
                     Some (findProgramAddressSync E
                             [Buffer_from ''twap_market'', toBuffer (publicKey market)]
                             (OPENBOOK_TWAP_PROGRAM_ID E))),
                  (''openbookProgram'', Some (client_programId ob))])"
proof (rule conjI)
  show "cancelOrderTransactions E wallet openbook provider orderId market =
        cancelOrderTransactions E wallet' openbook' provider' orderId market"
    by (simp add: cancelOrderTransactions_guarded [OF assms(1,3,6)]
        cancelOrderTransactions_guarded [OF assms(2,4,7)] assms(5))
  show "\<exists>ix. cancelOrderTransactions E wallet openbook provider orderId market
                 = Inr (Some [Transaction [ix]]) \<and>
               ix_method ix = cancelOrderByClientId orderId \<and>
               ix_accounts ix =
                 [(''openOrdersAccount'', Some (findOpenOrders E orderId pk)),
                  (''asks'', Some (asks (account market))),
                  (''bids'', Some (bids (account market))),
                  (''market'', Some (publicKey market)),
                  (''twapMarket'',
                     Some (findProgramAddressSync E
                             [Buffer_from ''twap_market'', toBuffer (publicKey market)]
                             (OPENBOOK_TWAP_PROGRAM_ID E))),
                  (''openbookProgram'', Some (client_programId ob))]"
    unfolding cancelOrderTransactions_guarded [OF assms(1,3,6)]
    by (intro exI conjI, rule refl) simp_all
qed


lemma BN_toString_3: "BN_toString 3 = ''3''"
  by code_simp

text \<open>The theorem on the pass market and on the fail market of an example proposal.\<close>

theorem settleFunds_accounts_witness:
  "(\<exists>ix. settleFundsTransactions example_env (example_rpc None) example_wallet (Some example_openbook) 3 True
            \<lparr>proposal_publicKey = ''proposal'',
             proposal_account = \<lparr>number = 0, descriptionUrl = ''https://example.org/0'',
                                 proposer = ''proposer'', baseVault = ''vaultB'', quoteVault = ''vaultQ''\<rparr>\<rparr>
            example_market = Inr (Some [Transaction [ix]]) \<and>
         ix_method ix = settleFunds \<and>
         map_of (ix_accounts ix) ''userBaseAccount'' = Some (Some ''ata/pass/vaultB/walletKey'') \<and>
         map_of (ix_accounts ix) ''userQuoteAccount'' = Some (Some ''ata/pass/vaultQ/walletKey'') \<and>
         map_of (ix_accounts ix) ''owner'' = Some (Some ''walletKey'') \<and>
         map_of (ix_accounts ix) ''penaltyPayer'' = Some (Some ''walletKey'') \<and>
         map_of (ix_accounts ix) ''referrerAccount'' = Some None) \<and>
   (\<exists>ix. settleFundsTransactions example_env (example_rpc None) example_wallet (Some example_openbook) 3 False
            \<lparr>proposal_publicKey = ''proposal'',
             proposal_account = \<lparr>number = 0, descriptionUrl = ''https://example.org/0'',
                                 proposer = ''proposer'', baseVault = ''vaultB'', quoteVault = ''vaultQ''\<rparr>\<rparr>
            example_market = Inr (Some [Transaction [ix]]) \<and>
         ix_method ix = settleFunds \<and>
         map_of (ix_accounts ix) ''userBaseAccount'' = Some (Some ''ata/fail/vaultB/walletKey'') \<and>
         map_of (ix_accounts ix) ''userQuoteAccount'' = Some (Some ''ata/fail/vaultQ/walletKey'') \<and>
         map_of (ix_accounts ix) ''owner'' = Some (Some ''walletKey'') \<and>
         map_of (ix_accounts ix) ''penaltyPayer'' = Some (Some ''walletKey'') \<and>
         map_of (ix_accounts ix) ''referrerAccount'' = Some None)"
proof -
  define proposal where "proposal =
     \<lparr>proposal_publicKey = ''proposal'',
      proposal_account = \<lparr>number = 0, descriptionUrl = ''https://example.org/0'',
                          proposer = ''proposer'', baseVault = ''vaultB'', quoteVault = ''vaultQ''\<rparr>\<rparr>"
  define qv where "qv = \<lparr>conditionalOnFinalizeTokenMint = ''pass/vaultQ'',
                         conditionalOnRevertTokenMint = ''fail/vaultQ''\<rparr>"
  define bv where "bv = \<lparr>conditionalOnFinalizeTokenMint = ''pass/vaultB'',
                         conditionalOnRevertTokenMint = ''fail/vaultB''\<rparr>"
  have g: "wallet_publicKey example_wallet = Some ''walletKey''"
    by (simp add: example_wallet_def)
  have q: "getVaultMint (example_rpc None) (quoteVault (proposal_account proposal)) = Inr qv"
    by (simp add: example_rpc_def proposal_def qv_def)
  have b: "getVaultMint (example_rpc None) (baseVault (proposal_account proposal)) = Inr bv"
    by (simp add: example_rpc_def proposal_def bv_def)
  have ev:
    "getAssociatedTokenAddressSync example_env (conditionalOnFinalizeTokenMint bv) ''walletKey''
       = ''ata/pass/vaultB/walletKey''"
    "getAssociatedTokenAddressSync example_env (conditionalOnFinalizeTokenMint qv) ''walletKey''
       = ''ata/pass/vaultQ/walletKey''"
    "getAssociatedTokenAddressSync example_env (conditionalOnRevertTokenMint bv) ''walletKey''
       = ''ata/fail/vaultB/walletKey''"
    "getAssociatedTokenAddressSync example_env (conditionalOnRevertTokenMint qv) ''walletKey''
       = ''ata/fail/vaultQ/walletKey''"
    by (simp_all add: example_env_def qv_def bv_def)
  note th = settleFunds_accounts [where E = example_env and orderId = 3 and market = example_market,
      OF g refl q b]
  show ?thesis
    unfolding proposal_def [symmetric]
    using th [where passMarket = True, unfolded if_True ev]
          th [where passMarket = False, unfolded if_False ev]
    by (rule conjI)
qed

text \<open>The theorem at two calls that differ in the provider and in the client's
  program handle.\<close>

theorem cancelOrder_determined_witness:
  "cancelOrderTransactions example_env example_wallet (Some example_openbook) (Some example_provider)
     3 example_market =
   cancelOrderTransactions example_env example_wallet
     (Some \<lparr>program = \<lparr>idl = OPENBOOK_IDL, programId = ''anotherHandle''\<rparr>,
            client_programId = ''openbookProgram''\<rparr>)
     (Some \<lparr>provider_wallet_publicKey = ''anotherPayer''\<rparr>) 3 example_market \<and>
   (\<exists>ix. cancelOrderTransactions example_env example_wallet (Some example_openbook)
            (Some example_provider) 3 example_market = Inr (Some [Transaction [ix]]) \<and>
         ix_method ix = cancelOrderByClientId 3 \<and>
         ix_accounts ix =
           [(''openOrdersAccount'', Some ''oo/3/walletKey''),
            (''asks'', Some ''asks''),
            (''bids'', Some ''bids''),
            (''market'', Some ''market''),
            (''twapMarket'', Some ''pda/twap_marketmarket/twapProgram''),
            (''openbookProgram'', Some ''openbookProgram'')])"
proof -
  define ob' where "ob' = \<lparr>program = \<lparr>idl = OPENBOOK_IDL, programId = ''anotherHandle''\<rparr>,
                           client_programId = ''openbookProgram''\<rparr>"
  define pv' where "pv' = \<lparr>provider_wallet_publicKey = ''anotherPayer''\<rparr>"
  have g: "wallet_publicKey example_wallet = Some ''walletKey''"
    by (simp add: example_wallet_def)
  have same: "client_programId example_openbook = client_programId ob'"
    by (simp add: example_openbook_def ob'_def)
  have ev:
    "findOpenOrders example_env 3 ''walletKey'' = ''oo/3/walletKey''"
    "asks (account example_market) = ''asks''"
    "bids (account example_market) = ''bids''"
    "publicKey example_market = ''market''"
    "findProgramAddressSync example_env [Buffer_from ''twap_market'', toBuffer ''market'']
       (OPENBOOK_TWAP_PROGRAM_ID example_env) = ''pda/twap_marketmarket/twapProgram''"
    "client_programId example_openbook = ''openbookProgram''"
    by (simp_all add: example_env_def example_market_def example_openbook_def seed_text_def
        BN_toString_3)
  show ?thesis
    unfolding ob'_def [symmetric] pv'_def [symmetric]
    using cancelOrder_determined [where E = example_env and orderId = 3 and market = example_market
        and provider' = "Some pv'", OF g g refl refl same refl refl, unfolded ev]
    by this
qed

section \<open>The program handle of each instruction\<close>

text \<open>
  Claim C5: \<^verbatim>\<open>placeOrder\<close> and \<^verbatim>\<open>cancelOrderByClientId\<close> are built on the TWAP
  program handle; \<^verbatim>\<open>settleFunds\<close>, \<^verbatim>\<open>closeOpenOrdersAccount\<close> and
  \<^verbatim>\<open>consumeEvents\<close> are built on the program handle of the order-book client.
\<close>

theorem program_handles:
  assumes "wallet_publicKey wallet = Some pk" "openbook = Some ob" "provider = Some pv"
  shows "(\<forall>txs. placeOrderTransactions E R wallet openbook provider amount price market limitOrder ask pass indexOffset
                  = Inr (Some txs) \<longrightarrow>
            (\<exists>pre ix args. txs = [Transaction (pre @ [ix])] \<and> ix_method ix = placeOrder args \<and>
               ix_program ix = \<lparr>idl = OPENBOOK_TWAP_IDL, programId = OPENBOOK_TWAP_PROGRAM_ID E\<rparr>)) \<and>
         (\<exists>ix. cancelOrderTransactions E wallet openbook provider orderId market
                  = Inr (Some [Transaction [ix]]) \<and>
               ix_method ix = cancelOrderByClientId orderId \<and>
               ix_program ix = \<lparr>idl = OPENBOOK_TWAP_IDL, programId = OPENBOOK_TWAP_PROGRAM_ID E\<rparr>) \<and>
         (\<forall>txs. settleFundsTransactions E R wallet openbook orderId passMarket proposal market
                  = Inr (Some txs) \<longrightarrow>
            (\<exists>ix. txs = [Transaction [ix]] \<and> ix_method ix = settleFunds \<and>
               ix_program ix = program ob)) \<and>
         (\<exists>ix. closeOpenOrdersAccountTransactions E wallet openbook orderId
                  = Inr (Some [Transaction [ix]]) \<and>
               ix_method ix = closeOpenOrdersAccount \<and> ix_program ix = program ob) \<and>
         (\<forall>txs. crankMarketTransactions E R wallet openbook provider market heap_key individualEvent
                  = Inr (Some txs) \<longrightarrow>
            (\<exists>msg ix n. txs = [VersionedTransaction msg] \<and> instructions msg = [ix] \<and>
               ix_method ix = consumeEvents n \<and> ix_program ix = program ob))"
proof (intro conjI allI impI)
  fix txs
  assume run: "placeOrderTransactions E R wallet openbook provider amount price market limitOrder ask pass indexOffset
                 = Inr (Some txs)"
  from assms run obtain opened idx ixs ooa args where
    "open_orders_index E R ob (findOpenOrdersIndexer E pk) pk indexOffset = Inr (opened, idx)" and
    "createOpenOrdersInstruction E (program ob) (publicKey market) idx
       (shortKey E pk @ ''-'' @ BN_toString idx) pk (findOpenOrdersIndexer E pk) = Inr (ixs, ooa)" and
    "place_order_args E amount price limitOrder ask idx = Inr args" and
    "placeOrder_encodes E args" and
    t: "txs = [Transaction (opened @ ixs @ [placeOrder_instruction E pk ob market ask ooa args])]"
    by (rule placeOrderTransactions_Some)
  show "\<exists>pre ix args. txs = [Transaction (pre @ [ix])] \<and> ix_method ix = placeOrder args \<and>
      ix_program ix = \<lparr>idl = OPENBOOK_TWAP_IDL, programId = OPENBOOK_TWAP_PROGRAM_ID E\<rparr>"
    by (rule exI [of _ "opened @ ixs"],
        rule exI [of _ "placeOrder_instruction E pk ob market ask ooa args"],
        rule exI [of _ args])
       (simp add: t placeOrder_instruction_def)
next
  show "\<exists>ix. cancelOrderTransactions E wallet openbook provider orderId market
                  = Inr (Some [Transaction [ix]]) \<and>
               ix_method ix = cancelOrderByClientId orderId \<and>
               ix_program ix = \<lparr>idl = OPENBOOK_TWAP_IDL, programId = OPENBOOK_TWAP_PROGRAM_ID E\<rparr>"
    unfolding cancelOrderTransactions_guarded [OF assms]
    by (intro exI conjI, rule refl) simp_all
next
  fix txs
  assume run: "settleFundsTransactions E R wallet openbook orderId passMarket proposal market = Inr (Some txs)"
  then show "\<exists>ix. txs = [Transaction [ix]] \<and> ix_method ix = settleFunds \<and> ix_program ix = program ob"
    by (auto simp: settleFundsTransactions_guarded [OF assms(1,2)] split: sum.splits)
next
  show "\<exists>ix. closeOpenOrdersAccountTransactions E wallet openbook orderId
                  = Inr (Some [Transaction [ix]]) \<and>
               ix_method ix = closeOpenOrdersAccount \<and> ix_program ix = program ob"
    unfolding closeOpenOrdersAccountTransactions_guarded [OF assms(1,2)]
    by (intro exI conjI, rule refl) simp_all
next
  fix txs
  assume run: "crankMarketTransactions E R wallet openbook provider market heap_key individualEvent
                 = Inr (Some txs)"
  from run obtain ob' p heap blockhash where
    o: "openbook = Some ob'" and "provider = Some p" and "fetch_eventHeap R heap_key = Inr heap" and
    t: "txs = [VersionedTransaction
                   \<lparr>payerKey = provider_wallet_publicKey p,
                    instructions =
                      [\<lparr>ix_program = program ob',
                        ix_method = consumeEvents (int (length (crank_filteredAccounts E heap individualEvent))),
                        ix_accounts =
                          [(''consumeEventsAdmin'', Some (client_programId ob')),
                           (''market'', Some (publicKey market)),
                           (''eventHeap'', Some (eventHeap (account market)))],
                        ix_remainingAccounts = crank_filteredAccounts E heap individualEvent\<rparr>],
                    recentBlockhash = blockhash\<rparr>]"
    by (rule crankMarketTransactions_returns)
  from o assms(2) have eq: "ob' = ob" by simp
  show "\<exists>msg ix n. txs = [VersionedTransaction msg] \<and> instructions msg = [ix] \<and>
      ix_method ix = consumeEvents n \<and> ix_program ix = program ob"
    unfolding t eq
    by (rule exI, rule exI,
        rule exI [of _ "int (length (crank_filteredAccounts E heap individualEvent))"],
        intro conjI, rule refl, simp) simp_all
qed


text \<open>The five builders at the example wallet: each returns, on the handle stated.\<close>

theorem program_handles_witness:
  "(\<exists>pre ix args.
      placeOrderTransactions example_env (example_rpc None) example_wallet (Some example_openbook)
        (Some example_provider) (7 / 2) (1 / 2) example_market (Some True) (Some True) None None
        = Inr (Some [Transaction (pre @ [ix])]) \<and>
      ix_method ix = placeOrder args \<and>
      ix_program ix = \<lparr>idl = OPENBOOK_TWAP_IDL, programId = ''twapProgram''\<rparr>) \<and>
   (\<exists>ix.
      cancelOrderTransactions example_env example_wallet (Some example_openbook)
        (Some example_provider) 3 example_market = Inr (Some [Transaction [ix]]) \<and>
      ix_method ix = cancelOrderByClientId 3 \<and>
      ix_program ix = \<lparr>idl = OPENBOOK_TWAP_IDL, programId = ''twapProgram''\<rparr>) \<and>
   (\<exists>ix.
      settleFundsTransactions example_env (example_rpc None) example_wallet (Some example_openbook) 3 True
        \<lparr>proposal_publicKey = ''proposal'',
         proposal_account = \<lparr>number = 0, descriptionUrl = ''https://example.org/0'',
                             proposer = ''proposer'', baseVault = ''vaultB'', quoteVault = ''vaultQ''\<rparr>\<rparr>
        example_market = Inr (Some [Transaction [ix]]) \<and>
      ix_method ix = settleFunds \<and>
      ix_program ix = \<lparr>idl = OPENBOOK_IDL, programId = ''openbookProgram''\<rparr>) \<and>
   (\<exists>ix.
      closeOpenOrdersAccountTransactions example_env example_wallet (Some example_openbook) 3
        = Inr (Some [Transaction [ix]]) \<and>
      ix_method ix = closeOpenOrdersAccount \<and>
      ix_program ix = \<lparr>idl = OPENBOOK_IDL, programId = ''openbookProgram''\<rparr>) \<and>
   (\<exists>msg ix n.
      crankMarketTransactions example_env (example_rpc (Some \<lparr>nodes = [fill_node 1]\<rparr>)) example_wallet
        (Some example_openbook) (Some example_provider) example_market ''heap'' None
        = Inr (Some [VersionedTransaction msg]) \<and>
      instructions msg = [ix] \<and> ix_method ix = consumeEvents n \<and>
      ix_program ix = \<lparr>idl = OPENBOOK_IDL, programId = ''openbookProgram''\<rparr>)"
proof -
  define proposal where "proposal =
     \<lparr>proposal_publicKey = ''proposal'',
      proposal_account = \<lparr>number = 0, descriptionUrl = ''https://example.org/0'',
                          proposer = ''proposer'', baseVault = ''vaultB'', quoteVault = ''vaultQ''\<rparr>\<rparr>"
  define heap where "heap = Some \<lparr>nodes = [fill_node 1]\<rparr>"
  define place where "place = placeOrderTransactions example_env (example_rpc None) example_wallet
    (Some example_openbook) (Some example_provider) (7 / 2) (1 / 2) example_market (Some True)
    (Some True) None None"
  define settle where "settle = settleFundsTransactions example_env (example_rpc None) example_wallet
    (Some example_openbook) 3 True proposal example_market"
  define crank where "crank = crankMarketTransactions example_env (example_rpc heap) example_wallet
    (Some example_openbook) (Some example_provider) example_market ''heap'' None"
  have g: "wallet_publicKey example_wallet = Some ''walletKey''"
    by (simp add: example_wallet_def)
  have fl: "\<lfloor>7 / 2 :: rat\<rfloor> = 3"
    by (rule floor_unique) simp_all
  have ev:
    "OPENBOOK_TWAP_PROGRAM_ID example_env = ''twapProgram''"
    "program example_openbook = \<lparr>idl = OPENBOOK_IDL, programId = ''openbookProgram''\<rparr>"
    by (simp_all add: example_env_def example_openbook_def)
  have "\<exists>txs. place = Inr (Some txs)"
    by (simp add: place_def placeOrderTransactions_def example_place_defs example_defs Let_def fl)
  then obtain t1 where t1: "place = Inr (Some t1)" ..
  have "\<exists>txs. settle = Inr (Some txs)"
    by (simp add: settle_def proposal_def settleFundsTransactions_def example_defs Let_def)
  then obtain t3 where t3: "settle = Inr (Some t3)" ..
  have "\<exists>txs. crank = Inr (Some txs)"
    by (simp add: crank_def heap_def crankMarketTransactions_def example_defs Let_def)
  then obtain t5 where t5: "crank = Inr (Some t5)" ..
  note th = program_handles [where E = example_env and orderId = 3 and market = example_market
      and wallet = example_wallet and openbook = "Some example_openbook" and ob = example_openbook
      and provider = "Some example_provider" and pv = example_provider,
      OF g refl refl, unfolded ev]
  note th1 = th [where R = "example_rpc None" and amount = "7 / 2" and price = "1 / 2"
      and limitOrder = "Some True" and ask = "Some True" and pass = None and indexOffset = None,
      THEN conjunct1, rule_format, OF t1 [unfolded place_def]]
  note th2 = th [THEN conjunct2, THEN conjunct1]
  note th3 = th [where R = "example_rpc None" and passMarket = True and proposal = proposal,
      THEN conjunct2, THEN conjunct2, THEN conjunct1, rule_format, OF t3 [unfolded settle_def]]
  note th4 = th [THEN conjunct2, THEN conjunct2, THEN conjunct2, THEN conjunct1]
  note th5 = th [where R = "example_rpc heap" and heap_key = "''heap''" and individualEvent = None,
      THEN conjunct2, THEN conjunct2, THEN conjunct2, THEN conjunct2, rule_format,
      OF t5 [unfolded crank_def]]
  from th1 obtain pre ix args where
    a: "t1 = [Transaction (pre @ [ix])]" "ix_method ix = placeOrder args"
       "ix_program ix = \<lparr>idl = OPENBOOK_TWAP_IDL, programId = ''twapProgram''\<rparr>"
    by (elim exE conjE)
  from th3 obtain ix3 where
    c: "t3 = [Transaction [ix3]]" "ix_method ix3 = settleFunds"
       "ix_program ix3 = \<lparr>idl = OPENBOOK_IDL, programId = ''openbookProgram''\<rparr>"
    by (elim exE conjE)
  from th5 obtain msg ix5 n where
    e: "t5 = [VersionedTransaction msg]" "instructions msg = [ix5]" "ix_method ix5 = consumeEvents n"
       "ix_program ix5 = \<lparr>idl = OPENBOOK_IDL, programId = ''openbookProgram''\<rparr>"
    by (elim exE conjE)
  show ?thesis
    unfolding proposal_def [symmetric] heap_def [symmetric] place_def [symmetric]
      settle_def [symmetric] crank_def [symmetric]
  proof (intro conjI)
    show "\<exists>pre ix args. place = Inr (Some [Transaction (pre @ [ix])]) \<and>
      ix_method ix = placeOrder args \<and>
      ix_program ix = \<lparr>idl = OPENBOOK_TWAP_IDL, programId = ''twapProgram''\<rparr>"
      using t1 a by (intro exI [of _ pre] exI [of _ ix] exI [of _ args]) simp
    show "\<exists>ix. cancelOrderTransactions example_env example_wallet (Some example_openbook)
        (Some example_provider) 3 example_market = Inr (Some [Transaction [ix]]) \<and>
      ix_method ix = cancelOrderByClientId 3 \<and>
      ix_program ix = \<lparr>idl = OPENBOOK_TWAP_IDL, programId = ''twapProgram''\<rparr>"
      by (rule th2)
    show "\<exists>ix. settle = Inr (Some [Transaction [ix]]) \<and> ix_method ix = settleFunds \<and>
      ix_program ix = \<lparr>idl = OPENBOOK_IDL, programId = ''openbookProgram''\<rparr>"
      using t3 c by (intro exI [of _ ix3]) simp
    show "\<exists>ix. closeOpenOrdersAccountTransactions example_env example_wallet (Some example_openbook) 3
        = Inr (Some [Transaction [ix]]) \<and>
      ix_method ix = closeOpenOrdersAccount \<and>
      ix_program ix = \<lparr>idl = OPENBOOK_IDL, programId = ''openbookProgram''\<rparr>"
      by (rule th4)
    show "\<exists>msg ix n. crank = Inr (Some [VersionedTransaction msg]) \<and>
      instructions msg = [ix] \<and> ix_method ix = consumeEvents n \<and>
      ix_program ix = \<lparr>idl = OPENBOOK_IDL, programId = ''openbookProgram''\<rparr>"
      using t5 e by (intro exI [of _ msg] exI [of _ ix5] exI [of _ n]) simp
  qed
qed

section \<open>The failed fetch of the open-orders indexer\<close>

lemma open_orders_index_failed:
  assumes "fetch_openOrdersIndexer R indexer = Inl e"
  shows "open_orders_index E R ob indexer pk indexOffset =
           (if \<not> truthy_number indexOffset then
              Inr ([createOpenOrdersIndexerInstruction E (program ob) indexer pk], 1)
            else (case new_BN_integer (1 + or_zero indexOffset) of
                    None \<Rightarrow> Inl BNError
                  | Some accountIndex \<Rightarrow> Inr ([], accountIndex)))"
  using assms by (simp add: open_orders_index_def)

lemma open_orders_index_no_counter:
  "open_orders_index E (R\<lparr>fetch_openOrdersIndexer := \<lambda>k. Inr None\<rparr>) ob indexer pk indexOffset =
     (case new_BN_integer (1 + or_zero indexOffset) of
        None \<Rightarrow> Inl BNError
      | Some accountIndex \<Rightarrow> Inr ([], accountIndex))"
  by (cases indexOffset)
     (simp_all add: open_orders_index_def truthy_number_def or_zero_def new_BN_integer_def)

lemma prepend_instructions_Nil: "prepend_instructions [] r = r"
  by (induction "[] :: instruction list" r rule: prepend_instructions.induct) simp_all

text \<open>
  Claim C4, as amended: the instructions of \<^verbatim>\<open>placeOrderTransactions\<close> do depend on
  whether the open-orders indexer is fetched. When the fetch fails, the run builds
  what a fetch that finds no created counter builds (account index
  \<^verbatim>\<open>1 + indexOffset\<close>), with one create-open-orders-indexer instruction in front
  when \<^verbatim>\<open>indexOffset\<close> is absent or 0; it is rejected when that run is.
\<close>

theorem placeOrder_fetch_failure:
  assumes "wallet_publicKey wallet = Some pk" "openbook = Some ob" "provider = Some pv"
    and "fetch_openOrdersIndexer R (findOpenOrdersIndexer E pk) = Inl e"
  shows "placeOrderTransactions E R wallet openbook provider amount price market limitOrder ask pass indexOffset =
         prepend_instructions
           (if truthy_number indexOffset then []
            else [createOpenOrdersIndexerInstruction E (program ob) (findOpenOrdersIndexer E pk) pk])
           (placeOrderTransactions E (R\<lparr>fetch_openOrdersIndexer := \<lambda>k. Inr None\<rparr>)
              wallet openbook provider amount price market limitOrder ask pass indexOffset)"
proof -
  let ?extra = "if truthy_number indexOffset then []
                else [createOpenOrdersIndexerInstruction E (program ob) (findOpenOrdersIndexer E pk) pk]"
  let ?R0 = "R\<lparr>fetch_openOrdersIndexer := \<lambda>k. Inr None\<rparr>"
  show ?thesis
  proof (cases "truthy_number indexOffset")
    case True
    have same: "open_orders_index E R ob (findOpenOrdersIndexer E pk) pk indexOffset =
                open_orders_index E ?R0 ob (findOpenOrdersIndexer E pk) pk indexOffset"
      by (simp add: open_orders_index_failed [OF assms(4)] open_orders_index_no_counter True)
    have "placeOrderTransactions E R wallet openbook provider amount price market limitOrder ask pass indexOffset =
          placeOrderTransactions E ?R0 wallet openbook provider amount price market limitOrder ask pass indexOffset"
      by (simp only: placeOrderTransactions_guarded [OF assms(1-3)] same)
    then show ?thesis
      by (simp add: True prepend_instructions_Nil)
  next
    case False
    have l: "open_orders_index E R ob (findOpenOrdersIndexer E pk) pk indexOffset =
               Inr ([createOpenOrdersIndexerInstruction E (program ob) (findOpenOrdersIndexer E pk) pk], 1)"
      by (simp add: open_orders_index_failed [OF assms(4)] False)
    have r: "open_orders_index E ?R0 ob (findOpenOrdersIndexer E pk) pk indexOffset = Inr ([], 1)"
      using False
      by (simp add: open_orders_index_no_counter truthy_number_def or_zero_def new_BN_integer_def
          split: option.splits)
    show ?thesis
      unfolding placeOrderTransactions_guarded [OF assms(1-3)] l r
      by (simp add: False split: sum.splits prod.splits)
  qed
qed

text \<open>
  The claim as first stated, that the success run and the failure run build the same
  instructions, fails: with a fetched counter of 2 the run builds two instructions
  and orders with client id 3; with a failed fetch it builds three, the first
  creating the indexer, and orders with client id 1.
\<close>

theorem placeOrder_depends_on_fetch:
  "\<exists>ixs ixs'.
     placeOrderTransactions example_env (example_rpc None) example_wallet (Some example_openbook)
       (Some example_provider) (7 / 2) (1 / 2) example_market (Some True) (Some True) None None
       = Inr (Some [Transaction ixs]) \<and>
     placeOrderTransactions example_env
       ((example_rpc None)\<lparr>fetch_openOrdersIndexer := \<lambda>k. Inl RpcError\<rparr>)
       example_wallet (Some example_openbook)
       (Some example_provider) (7 / 2) (1 / 2) example_market (Some True) (Some True) None None
       = Inr (Some [Transaction ixs']) \<and>
     length ixs = 2 \<and> length ixs' = 3 \<and>
     map ix_method ixs =
       [otherMethod ''createOpenOrdersAccount'',
        placeOrder \<lparr>side = Ask, priceLots = 5000, maxBaseLots = 3, maxQuoteLotsIncludingFees = 15000,
                    clientOrderId = 3, orderType = Limit, expiryTimestamp = 0,
                    selfTradeBehavior = AbortTransaction, limit = 255\<rparr>] \<and>
     map ix_method ixs' =
       [otherMethod ''createOpenOrdersIndexer'', otherMethod ''createOpenOrdersAccount'',
        placeOrder \<lparr>side = Ask, priceLots = 5000, maxBaseLots = 3, maxQuoteLotsIncludingFees = 15000,
                    clientOrderId = 1, orderType = Limit, expiryTimestamp = 0,
                    selfTradeBehavior = AbortTransaction, limit = 255\<rparr>]"
proof -
  have fl: "\<lfloor>7 / 2 :: rat\<rfloor> = 3"
    by (rule floor_unique) simp_all
  show ?thesis
    by (simp add: placeOrderTransactions_def example_place_defs example_defs Let_def fl)
qed


text \<open>The amended statement at a failing fetch, without an offset and with offset 2.\<close>

theorem placeOrder_fetch_failure_witness:
  "fetch_openOrdersIndexer ((example_rpc None)\<lparr>fetch_openOrdersIndexer := \<lambda>k. Inl RpcError\<rparr>)
     (findOpenOrdersIndexer example_env ''walletKey'') = Inl RpcError \<and>
   placeOrderTransactions example_env
     ((example_rpc None)\<lparr>fetch_openOrdersIndexer := \<lambda>k. Inl RpcError\<rparr>)
     example_wallet (Some example_openbook) (Some example_provider) (7 / 2) (1 / 2) example_market
     (Some True) (Some True) None None =
   prepend_instructions
     [\<lparr>ix_program = \<lparr>idl = OPENBOOK_IDL, programId = ''openbookProgram''\<rparr>,
       ix_method = otherMethod ''createOpenOrdersIndexer'',
       ix_accounts = [(''openOrdersIndexer'', Some ''ooi/walletKey''), (''owner'', Some ''walletKey'')],
       ix_remainingAccounts = []\<rparr>]
     (placeOrderTransactions example_env
        ((example_rpc None)\<lparr>fetch_openOrdersIndexer := \<lambda>k. Inl RpcError,
                              fetch_openOrdersIndexer := \<lambda>k. Inr None\<rparr>)
        example_wallet (Some example_openbook) (Some example_provider) (7 / 2) (1 / 2) example_market
        (Some True) (Some True) None None) \<and>
   placeOrderTransactions example_env
     ((example_rpc None)\<lparr>fetch_openOrdersIndexer := \<lambda>k. Inl RpcError\<rparr>)
     example_wallet (Some example_openbook) (Some example_provider) (7 / 2) (1 / 2) example_market
     (Some True) (Some True) None (Some 2) =
   prepend_instructions []
     (placeOrderTransactions example_env
        ((example_rpc None)\<lparr>fetch_openOrdersIndexer := \<lambda>k. Inl RpcError,
                              fetch_openOrdersIndexer := \<lambda>k. Inr None\<rparr>)
        example_wallet (Some example_openbook) (Some example_provider) (7 / 2) (1 / 2) example_market
        (Some True) (Some True) None (Some 2))"
proof -
  define R where "R = (example_rpc None)\<lparr>fetch_openOrdersIndexer := \<lambda>k. Inl RpcError\<rparr>"
  have g: "wallet_publicKey example_wallet = Some ''walletKey''"
    by (simp add: example_wallet_def)
  have f: "fetch_openOrdersIndexer R (findOpenOrdersIndexer example_env ''walletKey'') = Inl RpcError"
    by (simp add: R_def)
  have ev:
    "(if truthy_number None then []
      else [createOpenOrdersIndexerInstruction example_env (program example_openbook)
              (findOpenOrdersIndexer example_env ''walletKey'') ''walletKey'']) =
     [\<lparr>ix_program = \<lparr>idl = OPENBOOK_IDL, programId = ''openbookProgram''\<rparr>,
       ix_method = otherMethod ''createOpenOrdersIndexer'',
       ix_accounts = [(''openOrdersIndexer'', Some ''ooi/walletKey''), (''owner'', Some ''walletKey'')],
       ix_remainingAccounts = []\<rparr>]"
    "(if truthy_number (Some 2) then []
      else [createOpenOrdersIndexerInstruction example_env (program example_openbook)
              (findOpenOrdersIndexer example_env ''walletKey'') ''walletKey'']) = []"
    by (simp_all add: truthy_number_def example_env_def example_openbook_def)
  note th = placeOrder_fetch_failure [where E = example_env and R = R and wallet = example_wallet
      and openbook = "Some example_openbook" and ob = example_openbook
      and provider = "Some example_provider" and pv = example_provider
      and amount = "7 / 2" and price = "1 / 2" and market = example_market
      and limitOrder = "Some True" and ask = "Some True" and pass = None, OF g refl refl f]
  show ?thesis
    unfolding R_def [symmetric]
    using f th [where indexOffset = None, unfolded ev] th [where indexOffset = "Some 2", unfolded ev]
    by (intro conjI)
qed

section \<open>Properties of ProposalList\<close>

lemma with_tag_Link_card:
  "with_tag ''Link'' (proposal_card sk p) =
     [Element ''Link'' None [(''href'', Str (descriptionUrl (proposal_account p)))]
        [Element ''Group'' None [(''gap'', Str ''sm'')]
           [Element ''Text'' None [] [text_child ''Go to description''],
            Element ''IconExternalLink'' None [] []]]]"
  by (simp add: with_tag_def proposal_card_def)

lemma with_tag_Text_card:
  "with_tag ''Text'' (proposal_card sk p) =
     [Element ''Text'' None [(''size'', Str ''xl''), (''fw'', Num 500)]
        [text_child ''Proposal #'', number_child (int (number (proposal_account p)) + 1)],
      Element ''Text'' None [] [text_child ''Go to description''],
      Element ''Text'' None []
        [text_child ''Proposed by '', text_child (sk (proposer (proposal_account p)))],
      Element ''Text'' None [] [text_child ''Trade'']]"
  by (simp add: with_tag_def proposal_card_def)

lemma card_key: "element_key (proposal_card sk p) = Some (proposal_publicKey p)"
  and card_tag: "tag (proposal_card sk p) = ''Card''"
  by (simp_all add: proposal_card_def)

text \<open>
  Claim C7: \<^verbatim>\<open>ProposalList\<close> renders a centered loader when the proposal list is
  undefined and the text \<^verbatim>\<open>There are no proposals yet\<close> when it is empty;
  otherwise it renders one card per proposal, in list order, each keyed by the
  proposal's public key, titled \<^verbatim>\<open>Proposal #\<close> followed by the proposal's number
  plus one, and with one link, to the description URL.
\<close>

theorem ProposalList_renders:
  "ProposalList sk None =
     Element ''Group'' None [(''justify'', Str ''center'')] [Element ''Loader'' None [] []] \<and>
   ProposalList sk (Some []) =
     Element ''Text'' None [(''size'', Str ''lg''), (''ta'', Str ''center''), (''fw'', Str ''bold'')]
       [text_child ''There are no proposals yet''] \<and>
   (ps \<noteq> [] \<longrightarrow>
      (\<exists>cards. ProposalList sk (Some ps) = Element ''Stack'' None [] cards \<and>
         length cards = length ps \<and>
         (\<forall>i < length ps.
            tag (cards ! i) = ''Card'' \<and>
            element_key (cards ! i) = Some (proposal_publicKey (ps ! i)) \<and>
            (\<exists>others. with_tag ''Text'' (cards ! i) =
               Element ''Text'' None [(''size'', Str ''xl''), (''fw'', Num 500)]
                 [text_child ''Proposal #'',
                  number_child (int (number (proposal_account (ps ! i))) + 1)] # others) \<and>
            map (\<lambda>e. map_of (props e) ''href'') (with_tag ''Link'' (cards ! i)) =
              [Some (Str (descriptionUrl (proposal_account (ps ! i))))])))"
proof (intro conjI impI)
  show "ProposalList sk None =
     Element ''Group'' None [(''justify'', Str ''center'')] [Element ''Loader'' None [] []]"
    by (simp add: ProposalList_def)
  show "ProposalList sk (Some []) =
     Element ''Text'' None [(''size'', Str ''lg''), (''ta'', Str ''center''), (''fw'', Str ''bold'')]
       [text_child ''There are no proposals yet'']"
    by (simp add: ProposalList_def)
next
  assume ne: "ps \<noteq> []"
  show "\<exists>cards. ProposalList sk (Some ps) = Element ''Stack'' None [] cards \<and>
         length cards = length ps \<and>
         (\<forall>i < length ps.
            tag (cards ! i) = ''Card'' \<and>
            element_key (cards ! i) = Some (proposal_publicKey (ps ! i)) \<and>
            (\<exists>others. with_tag ''Text'' (cards ! i) =
               Element ''Text'' None [(''size'', Str ''xl''), (''fw'', Num 500)]
                 [text_child ''Proposal #'',
                  number_child (int (number (proposal_account (ps ! i))) + 1)] # others) \<and>
            map (\<lambda>e. map_of (props e) ''href'') (with_tag ''Link'' (cards ! i)) =
              [Some (Str (descriptionUrl (proposal_account (ps ! i))))])"
  proof (rule exI [of _ "map (proposal_card sk) ps"], intro conjI allI impI)
    show "ProposalList sk (Some ps) = Element ''Stack'' None [] (map (proposal_card sk) ps)"
      using ne by (simp add: ProposalList_def)
    show "length (map (proposal_card sk) ps) = length ps" by simp
  next
    fix i assume i: "i < length ps"
    then have nth: "map (proposal_card sk) ps ! i = proposal_card sk (ps ! i)" by simp
    show "tag (map (proposal_card sk) ps ! i) = ''Card''"
      unfolding nth by (rule card_tag)
    show "element_key (map (proposal_card sk) ps ! i) = Some (proposal_publicKey (ps ! i))"
      unfolding nth by (rule card_key)
    show "\<exists>others. with_tag ''Text'' (map (proposal_card sk) ps ! i) =
               Element ''Text'' None [(''size'', Str ''xl''), (''fw'', Num 500)]
                 [text_child ''Proposal #'',
                  number_child (int (number (proposal_account (ps ! i))) + 1)] # others"
      unfolding nth with_tag_Text_card by (rule exI, rule refl)
    show "map (\<lambda>e. map_of (props e) ''href'') (with_tag ''Link'' (map (proposal_card sk) ps ! i)) =
              [Some (Str (descriptionUrl (proposal_account (ps ! i))))]"
      unfolding nth with_tag_Link_card by simp
  qed
qed


text \<open>The theorem at a list of two proposals.\<close>

theorem ProposalList_renders_witness:
  "[\<lparr>proposal_publicKey = ''proposalA'',
     proposal_account = \<lparr>number = 0, descriptionUrl = ''https://example.org/0'',
                         proposer = ''proposerA'', baseVault = ''vaultB'', quoteVault = ''vaultQ''\<rparr>\<rparr>,
    \<lparr>proposal_publicKey = ''proposalB'',
     proposal_account = \<lparr>number = 1, descriptionUrl = ''https://example.org/1'',
                         proposer = ''proposerB'', baseVault = ''vaultB'', quoteVault = ''vaultQ''\<rparr>\<rparr>]
     \<noteq> [] \<and>
   (\<exists>cards others.
      ProposalList (take 4)
        (Some [\<lparr>proposal_publicKey = ''proposalA'',
                 proposal_account = \<lparr>number = 0, descriptionUrl = ''https://example.org/0'',
                                     proposer = ''proposerA'', baseVault = ''vaultB'',
                                     quoteVault = ''vaultQ''\<rparr>\<rparr>,
                \<lparr>proposal_publicKey = ''proposalB'',
                 proposal_account = \<lparr>number = 1, descriptionUrl = ''https://example.org/1'',
                                     proposer = ''proposerB'', baseVault = ''vaultB'',
                                     quoteVault = ''vaultQ''\<rparr>\<rparr>])
        = Element ''Stack'' None [] cards \<and>
      length cards = 2 \<and>
      element_key (cards ! 0) = Some ''proposalA'' \<and>
      element_key (cards ! 1) = Some ''proposalB'' \<and>
      with_tag ''Text'' (cards ! 1) =
        Element ''Text'' None [(''size'', Str ''xl''), (''fw'', Num 500)]
          [text_child ''Proposal #'', number_child 2] # others \<and>
      map (\<lambda>e. map_of (props e) ''href'') (with_tag ''Link'' (cards ! 1)) =
        [Some (Str ''https://example.org/1'')])"
proof -
  define p0 where "p0 =
    \<lparr>proposal_publicKey = ''proposalA'',
     proposal_account = \<lparr>number = 0, descriptionUrl = ''https://example.org/0'',
                         proposer = ''proposerA'', baseVault = ''vaultB'', quoteVault = ''vaultQ''\<rparr>\<rparr>"
  define p1 where "p1 =
    \<lparr>proposal_publicKey = ''proposalB'',
     proposal_account = \<lparr>number = 1, descriptionUrl = ''https://example.org/1'',
                         proposer = ''proposerB'', baseVault = ''vaultB'', quoteVault = ''vaultQ''\<rparr>\<rparr>"
  have ne: "[p0, p1] \<noteq> []" by simp
  have ev:
    "proposal_publicKey p0 = ''proposalA''" "proposal_publicKey p1 = ''proposalB''"
    "int (number (proposal_account p1)) + 1 = 2"
    "descriptionUrl (proposal_account p1) = ''https://example.org/1''"
    by (simp_all add: p0_def p1_def)
  from ProposalList_renders [of "take 4" "[p0, p1]", THEN conjunct2, THEN conjunct2, THEN mp, OF ne]
  obtain cards where
    c: "ProposalList (take 4) (Some [p0, p1]) = Element ''Stack'' None [] cards"
       "length cards = length [p0, p1]" and
    each: "\<forall>i < length [p0, p1].
            tag (cards ! i) = ''Card'' \<and>
            element_key (cards ! i) = Some (proposal_publicKey ([p0, p1] ! i)) \<and>
            (\<exists>others. with_tag ''Text'' (cards ! i) =
               Element ''Text'' None [(''size'', Str ''xl''), (''fw'', Num 500)]
                 [text_child ''Proposal #'',
                  number_child (int (number (proposal_account ([p0, p1] ! i))) + 1)] # others) \<and>
            map (\<lambda>e. map_of (props e) ''href'') (with_tag ''Link'' (cards ! i)) =
              [Some (Str (descriptionUrl (proposal_account ([p0, p1] ! i))))]"
    by (elim exE conjE)
  from each [rule_format, of 0] have k0: "element_key (cards ! 0) = Some ''proposalA''"
    by (simp add: ev)
  from each [rule_format, of 1] obtain others where
    k1: "element_key (cards ! 1) = Some ''proposalB''" and
    t1: "with_tag ''Text'' (cards ! 1) =
           Element ''Text'' None [(''size'', Str ''xl''), (''fw'', Num 500)]
             [text_child ''Proposal #'', number_child 2] # others" and
    l1: "map (\<lambda>e. map_of (props e) ''href'') (with_tag ''Link'' (cards ! 1)) =
           [Some (Str ''https://example.org/1'')]"
    by (auto simp: ev)
  from c(2) have len: "length cards = 2" by simp
  show ?thesis
    unfolding p0_def [symmetric] p1_def [symmetric]
  proof (intro conjI exI)
    show "[p0, p1] \<noteq> []" by (rule ne)
    show "ProposalList (take 4) (Some [p0, p1]) = Element ''Stack'' None [] cards" by (rule c(1))
    show "length cards = 2" by (rule len)
    show "element_key (cards ! 0) = Some ''proposalA''" by (rule k0)
    show "element_key (cards ! 1) = Some ''proposalB''" by (rule k1)
    show "with_tag ''Text'' (cards ! 1) =
           Element ''Text'' None [(''size'', Str ''xl''), (''fw'', Num 500)]
             [text_child ''Proposal #'', number_child 2] # others" by (rule t1)
    show "map (\<lambda>e. map_of (props e) ''href'') (with_tag ''Link'' (cards ! 1)) =
           [Some (Str ''https://example.org/1'')]" by (rule l1)
  qed
qed

end
